theory Spec2Isabelle
  imports Complex_Main "HOL-Library.Multiset"
begin

section \<open>The Report Builder of the CCD dashboard (src/app.py)\<close>

text \<open>
  The source is \<^verbatim>\<open>read_excel_contents\<close>, \<^verbatim>\<open>update_output\<close> and
  \<^verbatim>\<open>update_tab_contents\<close> of \<^verbatim>\<open>src/app.py\<close>. The functions are
  embedded as HOL functions returning \<open>error + result\<close>: every Python exception the
  source can raise is an \<open>Inl\<close> branch.

  The number of a cell is an exact rational; a cell holds no infinity. The arithmetic of
  line 76 is \<^verbatim>\<open>float64\<close> arithmetic, with its rounding, its overflow to infinity and
  its signed zero. A cell is what \<^verbatim>\<open>pandas\<close> holds in a frame:
  a missing value (\<^verbatim>\<open>NaN\<close>, also the empty cell of a sheet), a number, or a string.
  Booleans and dates in cells are not modelled.
\<close>

subsection \<open>Data\<close>

datatype cell = NaN | Num rat | Str string

text \<open>
  The exceptions of the source, by the line that raises them:
  \<^item> \<open>UnpackError\<close>: the \<^verbatim>\<open>ValueError\<close> of the tuple unpacking in line 47, when
    \<^verbatim>\<open>contents.split(',')\<close> has not exactly two parts;
  \<^item> \<open>DecodeError\<close>: \<^verbatim>\<open>base64.b64decode\<close> raising in line 48;
  \<^item> \<open>ParseError\<close>: \<^verbatim>\<open>pd.read_excel\<close> raising in line 49;
  \<^item> \<open>SchemaError\<close>: the \<^verbatim>\<open>IndexError\<close> of \<^verbatim>\<open>df.iloc[:, columns_to_keep]\<close> in
    line 50, when a position is out of bounds;
  \<^item> \<open>LengthMismatch\<close>: the \<^verbatim>\<open>ValueError\<close> of the assignment to
    \<^verbatim>\<open>df.columns\<close> in line 51, when the frame has not 15 columns.
\<close>

datatype error = UnpackError | DecodeError | ParseError | SchemaError | LengthMismatch

text \<open>
  The library functions whose code is not part of the repository are parameters of the
  model, collected in one record:
  \<^item> \<open>b64decode\<close>: \<^verbatim>\<open>base64.b64decode\<close>, \<open>None\<close> when it raises;
  \<^item> \<open>sheet_rows\<close>: the rows of cells the spreadsheet reader of \<^verbatim>\<open>pd.read_excel\<close>
    finds in the first sheet of the workbook, \<open>None\<close> when the bytes are not a readable
    workbook;
  \<^item> \<open>float_of_str\<close>: the number \<^verbatim>\<open>pd.to_numeric\<close> reads from a string, \<open>None\<close>
    when the string does not parse (the strings \<^verbatim>\<open>pd.to_numeric\<close> reads as an
    infinity have no value in the model);
  \<^item> \<open>str_of_num\<close>: how an f-string prints the number of a numeric column
    (\<^verbatim>\<open>str\<close> of a \<^verbatim>\<open>float64\<close> or an \<^verbatim>\<open>int64\<close>).
\<close>

record pylib =
  b64decode :: "string \<Rightarrow> string option"
  sheet_rows :: "string \<Rightarrow> cell list list option"
  float_of_str :: "string \<Rightarrow> rat option"
  str_of_num :: "rat \<Rightarrow> string"

text \<open>
  A data frame: the length of its index and its columns in order, each a label with the
  values of the column (a \<^verbatim>\<open>Series\<close>).
\<close>

record dataframe =
  nrows :: nat
  cols :: "(string \<times> cell list) list"

text \<open>One trace of the bar chart: the dictionary with keys \<^verbatim>\<open>x\<close>, \<^verbatim>\<open>y\<close>, \<^verbatim>\<open>name\<close>.\<close>

record trace =
  trace_x :: "cell list"
  trace_y :: "cell list"
  trace_name :: string

text \<open>The data of the pie chart: the keys \<^verbatim>\<open>labels\<close> and \<^verbatim>\<open>values\<close>.\<close>

record pie =
  pie_labels :: "string list"
  pie_values :: "nat list"

text \<open>
  The \<^verbatim>\<open>DataTable\<close>: \<^verbatim>\<open>columns\<close> (name and id of each column), \<^verbatim>\<open>data\<close>
  (one dictionary per row, keys in column order) and \<^verbatim>\<open>page_size\<close>. The style
  arguments and the layout dictionaries of the figures are constants of the source and
  are left out.
\<close>

record datatable =
  table_columns :: "(string \<times> string) list"
  table_data :: "(string \<times> cell) list list"
  page_size :: nat

datatype component = Div "string list" | DataTable datatable

datatype figure = EmptyFigure | BarGraph "trace list" | PieChart pie

subsection \<open>Strings\<close>

text \<open>\<^verbatim>\<open>str.split(',')\<close>: the parts between the commas, at least one part.\<close>

fun split_comma :: "string \<Rightarrow> string list" where
  "split_comma [] = [[]]"
| "split_comma (c # cs) =
     (if c = CHR '','' then [] # split_comma cs
      else (case split_comma cs of [] \<Rightarrow> [[c]] | p # ps \<Rightarrow> (c # p) # ps))"

definition digit_char :: "int \<Rightarrow> char" where
  "digit_char d = ''0123456789'' ! nat (d mod 10)"

text \<open>
  The decimal digits of a non-negative integer, as \<^verbatim>\<open>str\<close> of an integer prints
  them; the source prints only counts and rounded absolute values.
\<close>

function str_int :: "int \<Rightarrow> string" where
  "str_int n = (if n < 10 then [digit_char n] else str_int (n div 10) @ [digit_char n])"
  by pat_completeness auto
termination
  by (relation "measure nat") auto

declare str_int.simps [simp del]

text \<open>The integer nearest to a rational, the even one in a tie.\<close>

definition round_half_even :: "rat \<Rightarrow> int" where
  "round_half_even x =
     (let f = \<lfloor>x\<rfloor>; d = x - of_int f
      in if d < 1 / 2 then f else if 1 / 2 < d then f + 1 else if even f then f else f + 1)"

subsection \<open>Floating point\<close>

text \<open>
  Line 76 computes in \<^verbatim>\<open>float64\<close>. A value of that type is \<^verbatim>\<open>NaN\<close>, an infinity with
  its sign, or a finite number given by its sign bit and its magnitude, so that the two
  zeros are told apart.
\<close>

datatype fval = FNan | FInf bool | FFin bool rat

text \<open>The position of the highest bit of a positive integer, and the powers of two.\<close>

function ilog2 :: "int \<Rightarrow> int" where
  "ilog2 n = (if n < 2 then 0 else 1 + ilog2 (n div 2))"
  by pat_completeness auto
termination
  by (relation "measure nat") auto

declare ilog2.simps [simp del]

function pow2n :: "int \<Rightarrow> rat" where
  "pow2n e =
     (if e \<le> 0 then 1
      else if even e then pow2n (e div 2) * pow2n (e div 2) else 2 * pow2n (e - 1))"
  by pat_completeness auto
termination
  by (relation "measure nat") auto

declare pow2n.simps [simp del]

definition pow2 :: "int \<Rightarrow> rat" where
  "pow2 e = (if 0 \<le> e then pow2n e else 1 / pow2n (- e))"

text \<open>
  The exponent of the last bit of the 53-bit significand that holds a positive number
  \<open>q\<close>: 52 below the highest bit of \<open>q\<close>, and never below -1074, the exponent of
  the subnormal step.
\<close>

definition f64_exp :: "rat \<Rightarrow> int" where
  "f64_exp q =
     (let (a, b) = quotient_of q; k = ilog2 a - ilog2 b;
          l = (if pow2 k \<le> q then k else k - 1)
      in max (l - 52) (- 1074))"

text \<open>The least magnitude that overflows, 2 to the power 1024.\<close>

definition f64_overflow :: rat where
  "f64_overflow =
     179769313486231590772930519078902473361797697894230657273430081157732675805500963132708477322407536021120113879871393357658789768814416622492847430639474124377767893424865485276302219601246094119453082952085005768838150682342462881473913110540827237163350510684586298239947245938479716304835356329624224137216"

text \<open>
  The \<^verbatim>\<open>float64\<close> result of an operation whose exact result has the sign \<open>s\<close> and the
  magnitude \<open>q\<close>: round to nearest, ties to even, an infinity on overflow.
\<close>

definition fl64 :: "bool \<Rightarrow> rat \<Rightarrow> fval" where
  "fl64 s q =
     (if q = 0 then FFin s 0
      else (let e = f64_exp q; y = of_int (round_half_even (q / pow2 e)) * pow2 e
            in if f64_overflow \<le> y then FInf s else FFin s y))"

text \<open>
  The number of a numeric cell as a \<^verbatim>\<open>float64\<close>: itself when it is one, rounded when it
  is an \<^verbatim>\<open>int64\<close> that is none. Division and multiplication by a positive constant.
\<close>

definition to_f64 :: "cell \<Rightarrow> fval" where
  "to_f64 c = (case c of Num r \<Rightarrow> fl64 (r < 0) \<bar>r\<bar> | _ \<Rightarrow> FNan)"

definition f64_div :: "fval \<Rightarrow> rat \<Rightarrow> fval" where
  "f64_div x k = (case x of FFin s m \<Rightarrow> fl64 s (m / k) | _ \<Rightarrow> x)"

definition f64_mul :: "fval \<Rightarrow> rat \<Rightarrow> fval" where
  "f64_mul x k = (case x of FFin s m \<Rightarrow> fl64 s (m * k) | _ \<Rightarrow> x)"

text \<open>
  \<^verbatim>\<open>f'{x:.2f}'\<close>: the magnitude rounded to two decimals, ties to even, printed as the
  integer digits, a point and two digits, after a minus sign when the sign bit is set;
  \<^verbatim>\<open>inf\<close> and \<^verbatim>\<open>nan\<close> for the values that are no numbers.
\<close>

definition fixed2 :: "rat \<Rightarrow> string" where
  "fixed2 m =
     (let n = round_half_even (m * 100)
      in str_int (n div 100) @ ''.'' @ [digit_char (n div 10), digit_char n])"

definition fmt2f :: "fval \<Rightarrow> string" where
  "fmt2f x =
     (case x of
        FNan \<Rightarrow> ''nan''
      | FInf s \<Rightarrow> (if s then ''-'' else '''') @ ''inf''
      | FFin s m \<Rightarrow> (if s then ''-'' else '''') @ fixed2 m)"








subsection \<open>The pandas operations the source calls\<close>

definition cell_at :: "cell list \<Rightarrow> nat \<Rightarrow> cell" where
  "cell_at r j = (if j < length r then r ! j else NaN)"

definition grid_width :: "cell list list \<Rightarrow> nat" where
  "grid_width g = foldr (\<lambda>r w. max (length r) w) g 0"

text \<open>
  \<^verbatim>\<open>pd.read_excel(io.BytesIO(decoded), skiprows=8)\<close>, with the default
  \<^verbatim>\<open>header=0\<close>: the first \<open>skiprows\<close> rows of the sheet are dropped, the next row
  gives the column labels, and the rows after it are the data. The reader pads every row
  with empty cells to the width of the widest row of the sheet. A sheet with no row left
  after the skip gives the empty frame, with no column. The result is the number of data
  rows and the columns by position; the labels read from the header row are not kept,
  since the source addresses columns by position and then overwrites the labels.
\<close>

definition read_excel :: "pylib \<Rightarrow> string \<Rightarrow> nat \<Rightarrow> error + nat \<times> cell list list" where
  "read_excel L bytes skiprows =
     (case sheet_rows L bytes of
        None \<Rightarrow> Inl ParseError
      | Some g \<Rightarrow>
          (case drop skiprows g of
             [] \<Rightarrow> Inr (0, [])
           | hdr # rows \<Rightarrow>
               Inr (length rows, map (\<lambda>j. map (\<lambda>r. cell_at r j) rows) [0..<grid_width g])))"

text \<open>
  \<^verbatim>\<open>df.iloc[:, columns_to_keep]\<close> for a list of positions: \<^verbatim>\<open>IndexError\<close> when a
  position is out of bounds. The templates of the source are lists of non-negative
  literals, so positions are natural numbers.
\<close>

definition iloc_cols :: "cell list list \<Rightarrow> nat list \<Rightarrow> error + cell list list" where
  "iloc_cols cs ks =
     (if list_all (\<lambda>k. k < length cs) ks then Inr (map (\<lambda>k. cs ! k) ks) else Inl SchemaError)"

text \<open>\<^verbatim>\<open>df[name]\<close>; the source reads only columns that exist.\<close>

definition getcol :: "dataframe \<Rightarrow> string \<Rightarrow> cell list" where
  "getcol df name = (case map_of (cols df) name of Some s \<Rightarrow> s | None \<Rightarrow> [])"

text \<open>\<^verbatim>\<open>df[name] = s\<close>: replaces the column of that label, or appends a new one.\<close>

definition setcol :: "dataframe \<Rightarrow> string \<Rightarrow> cell list \<Rightarrow> dataframe" where
  "setcol df name s =
     (if name \<in> fst ` set (cols df)
      then df\<lparr>cols := map (\<lambda>(n, c). if n = name then (n, s) else (n, c)) (cols df)\<rparr>
      else df\<lparr>cols := cols df @ [(name, s)]\<rparr>)"

text \<open>
  \<^verbatim>\<open>pd.to_numeric(s, errors='coerce')\<close>: a number stays, a missing value stays, a
  string becomes the number it parses to, or \<^verbatim>\<open>NaN\<close>.
\<close>

definition coerce :: "pylib \<Rightarrow> cell \<Rightarrow> cell" where
  "coerce L c =
     (case c of
        NaN \<Rightarrow> NaN
      | Num r \<Rightarrow> Num r
      | Str t \<Rightarrow> (case float_of_str L t of None \<Rightarrow> NaN | Some r \<Rightarrow> Num r))"

definition to_numeric :: "pylib \<Rightarrow> cell list \<Rightarrow> cell list" where
  "to_numeric L s = map (coerce L) s"

text \<open>The numbers of a numeric series, its \<^verbatim>\<open>NaN\<close> dropped.\<close>

fun dropna :: "cell list \<Rightarrow> rat list" where
  "dropna [] = []"
| "dropna (Num r # cs) = r # dropna cs"
| "dropna (c # cs) = dropna cs"

text \<open>
  \<^verbatim>\<open>np.max\<close> of a row, which is the row's \<^verbatim>\<open>max()\<close> with \<^verbatim>\<open>skipna=True\<close>:
  the greatest of the numbers, \<^verbatim>\<open>NaN\<close> when there is none.
\<close>

definition np_max :: "cell list \<Rightarrow> cell" where
  "np_max row = (case dropna row of [] \<Rightarrow> NaN | r # rs \<Rightarrow> Num (fold max rs r))"

text \<open>Row \<open>i\<close> of some columns, and \<^verbatim>\<open>apply(f, axis=1)\<close> over them.\<close>

definition row_of :: "cell list list \<Rightarrow> nat \<Rightarrow> cell list" where
  "row_of cs i = map (\<lambda>c. c ! i) cs"

definition apply_rows :: "(cell list \<Rightarrow> cell) \<Rightarrow> dataframe \<Rightarrow> string list \<Rightarrow> cell list" where
  "apply_rows f df names = map (\<lambda>i. f (row_of (map (getcol df) names) i)) [0..<nrows df]"

text \<open>
  \<^verbatim>\<open>df['Highest_Star'] / 5\<close> and the product of the quotient with 100: the arithmetic
  of a numeric series with a scalar, in \<^verbatim>\<open>float64\<close>. \<^verbatim>\<open>NaN\<close> stays \<^verbatim>\<open>NaN\<close>.
\<close>

definition ser_div :: "cell list \<Rightarrow> rat \<Rightarrow> fval list" where
  "ser_div s k = map (\<lambda>c. f64_div (to_f64 c) k) s"

definition ser_mul :: "fval list \<Rightarrow> rat \<Rightarrow> fval list" where
  "ser_mul s k = map (\<lambda>x. f64_mul x k) s"

text \<open>
  \<^verbatim>\<open>s.value_counts()\<close>: the distinct numbers of the series with how often each
  occurs, \<^verbatim>\<open>NaN\<close> left out, the most frequent first; and \<^verbatim>\<open>sort_index()\<close>, which
  orders such a series by its keys.
\<close>

definition value_counts :: "cell list \<Rightarrow> (rat \<times> nat) list" where
  "value_counts s =
     (let vs = dropna s
      in sort_key (\<lambda>(v, c). - int c) (map (\<lambda>v. (v, count_list vs v)) (remdups vs)))"

definition sort_index :: "(rat \<times> nat) list \<Rightarrow> (rat \<times> nat) list" where
  "sort_index kvs = sort_key fst kvs"

text \<open>\<^verbatim>\<open>df.to_dict('records')\<close>: one dictionary per row, keys in column order.\<close>

definition to_records :: "dataframe \<Rightarrow> (string \<times> cell) list list" where
  "to_records df = map (\<lambda>i. map (\<lambda>(n, c). (n, c ! i)) (cols df)) [0..<nrows df]"

subsection \<open>read_excel_contents\<close>

definition column_names :: "string list" where
  "column_names =
     [''Index'', ''Roll no'', ''Names'',
      ''WEEK1'', ''1'',
      ''WEEK2'', ''2'',
      ''WEEK3'', ''3'',
      ''WEEK4'', ''4'',
      ''WEEK5'', ''5'',
      ''WEEK6'', ''6'']"

definition read_excel_contents :: "pylib \<Rightarrow> string \<Rightarrow> nat list \<Rightarrow> error + dataframe" where
  "read_excel_contents L contents columns_to_keep =
     (case split_comma contents of
        [content_type, content_string] \<Rightarrow>
          (case b64decode L content_string of
             None \<Rightarrow> Inl DecodeError
           | Some decoded \<Rightarrow>
               (case read_excel L decoded 8 of
                  Inl e \<Rightarrow> Inl e
                | Inr (n, cs) \<Rightarrow>
                    (case iloc_cols cs columns_to_keep of
                       Inl e \<Rightarrow> Inl e
                     | Inr sel \<Rightarrow>
                         if length sel = length column_names
                         then Inr \<lparr>nrows = n, cols = zip column_names sel\<rparr>
                         else Inl LengthMismatch)))
      | _ \<Rightarrow> Inl UnpackError)"

subsection \<open>update_output\<close>

definition numeric_columns :: "string list" where
  "numeric_columns = [''1'', ''2'', ''3'', ''4'', ''5'', ''6'']"

text \<open>Line 70: the six week columns, each replaced by its numeric coercion.\<close>

definition coerce_numeric_columns :: "pylib \<Rightarrow> dataframe \<Rightarrow> dataframe" where
  "coerce_numeric_columns L df =
     fold (\<lambda>name d. setcol d name (to_numeric L (getcol df name))) numeric_columns df"

text \<open>Line 73: the new column \<^verbatim>\<open>Highest_Star\<close>.\<close>

definition add_highest_star :: "dataframe \<Rightarrow> dataframe" where
  "add_highest_star df = setcol df ''Highest_Star'' (apply_rows np_max df numeric_columns)"

text \<open>
  Line 76: the new column \<^verbatim>\<open>Percentage\<close>. The lambda is applied to the numbers of
  \<^verbatim>\<open>(df['Highest_Star'] / 5) * 100\<close>: \<^verbatim>\<open>f'{x:.2f}%'\<close> when \<^verbatim>\<open>x\<close> is not
  \<^verbatim>\<open>NaN\<close>, the empty string otherwise.
\<close>

definition percentage_text :: "fval \<Rightarrow> cell" where
  "percentage_text x = (if x \<noteq> FNan then Str (fmt2f x @ ''%'') else Str '''')"

definition add_percentage :: "dataframe \<Rightarrow> dataframe" where
  "add_percentage df =
     setcol df ''Percentage''
       (map percentage_text (ser_mul (ser_div (getcol df ''Highest_Star'') 5) 100))"

text \<open>Lines 79 to 91: the table.\<close>

definition make_table :: "dataframe \<Rightarrow> datatable" where
  "make_table df =
     \<lparr>table_columns = map (\<lambda>col. (col, col)) (map fst (cols df)),
      table_data = to_records df,
      page_size = nrows df\<rparr>"

text \<open>Lines 94 to 102: the six traces of the bar chart.\<close>

definition bar_graph_data :: "dataframe \<Rightarrow> trace list" where
  "bar_graph_data df =
     [\<lparr>trace_x = drop 2 (getcol df ''Names''), trace_y = drop 2 (getcol df ''1''), trace_name = ''Week 1''\<rparr>,
      \<lparr>trace_x = drop 2 (getcol df ''Names''), trace_y = drop 2 (getcol df ''2''), trace_name = ''Week 2''\<rparr>,
      \<lparr>trace_x = drop 2 (getcol df ''Names''), trace_y = drop 2 (getcol df ''3''), trace_name = ''Week 3''\<rparr>,
      \<lparr>trace_x = drop 2 (getcol df ''Names''), trace_y = drop 2 (getcol df ''4''), trace_name = ''Week 4''\<rparr>,
      \<lparr>trace_x = drop 2 (getcol df ''Names''), trace_y = drop 2 (getcol df ''5''), trace_name = ''Week 5''\<rparr>,
      \<lparr>trace_x = drop 2 (getcol df ''Names''), trace_y = drop 2 (getcol df ''6''), trace_name = ''Week 6''\<rparr>]"

text \<open>Lines 115 to 123: labels and values of the pie chart.\<close>

definition star_label :: "pylib \<Rightarrow> rat \<times> nat \<Rightarrow> string" where
  "star_label L = (\<lambda>(star, count). str_int (int count) @ '' students = '' @ str_of_num L star @ '' stars'')"

definition star_count_pie :: "pylib \<Rightarrow> dataframe \<Rightarrow> pie" where
  "star_count_pie L df =
     \<lparr>pie_labels = map (star_label L) (sort_index (value_counts (getcol df ''Highest_Star''))),
      pie_values = map snd (sort_index (value_counts (getcol df ''Highest_Star'')))\<rparr>"

text \<open>The frame after lines 70, 73 and 76.\<close>

definition report_frame :: "pylib \<Rightarrow> dataframe \<Rightarrow> dataframe" where
  "report_frame L df = add_percentage (add_highest_star (coerce_numeric_columns L df))"

definition update_output ::
  "pylib \<Rightarrow> string option \<Rightarrow> nat list \<Rightarrow> error + component \<times> figure \<times> figure" where
  "update_output L contents columns_to_keep =
     (case contents of
        None \<Rightarrow> Inr (Div [''''], EmptyFigure, EmptyFigure)
      | Some c \<Rightarrow>
          (case read_excel_contents L c columns_to_keep of
             Inl e \<Rightarrow> Inl e
           | Inr df0 \<Rightarrow>
               (let df = report_frame L df0
                in Inr (DataTable (make_table df),
                        BarGraph (bar_graph_data df),
                        PieChart (star_count_pie L df)))))"

subsection \<open>update_tab_contents\<close>

definition columns_to_keep_page1 :: "nat list" where
  "columns_to_keep_page1 = [0, 1, 2, 6, 13, 16, 23, 26, 33, 36, 43, 46, 53, 56, 63]"

definition columns_to_keep_page2 :: "nat list" where
  "columns_to_keep_page2 = [0, 1, 2, 6, 15, 18, 27, 30, 39, 42, 51, 54, 63, 66, 75]"

definition tab_output ::
  "pylib \<Rightarrow> string option \<Rightarrow> string option \<Rightarrow> nat list
     \<Rightarrow> error + component \<times> figure \<times> figure" where
  "tab_output L contents active_tab columns_to_keep =
     (if contents = None \<or> active_tab = None
      then Inr (Div [''''], EmptyFigure, EmptyFigure)
      else update_output L contents columns_to_keep)"

definition update_tab_contents ::
  "pylib \<Rightarrow> string option \<Rightarrow> string option \<Rightarrow> string option
     \<Rightarrow> error + (component \<times> figure \<times> figure) \<times> (component \<times> figure \<times> figure)" where
  "update_tab_contents L contents_page1 contents_page2 active_tab =
     (case tab_output L contents_page1 active_tab columns_to_keep_page1 of
        Inl e \<Rightarrow> Inl e
      | Inr out1 \<Rightarrow>
          (case tab_output L contents_page2 active_tab columns_to_keep_page2 of
             Inl e \<Rightarrow> Inl e
           | Inr out2 \<Rightarrow> Inr (out1, out2)))"

section \<open>The report, row by row\<close>

text \<open>
  The definitions of this section are not code of the source. They describe the frame and
  the three outputs one sheet row at a time; the lemmas below prove that
  \<open>update_output\<close> computes exactly them, and the properties are then read off.
\<close>

text \<open>A frame with the fifteen labelled columns of \<open>read_excel_contents\<close>.\<close>

definition frame15 ::
  "nat \<Rightarrow> cell list \<Rightarrow> cell list \<Rightarrow> cell list \<Rightarrow> cell list \<Rightarrow> cell list \<Rightarrow> cell list
     \<Rightarrow> cell list \<Rightarrow> cell list \<Rightarrow> cell list \<Rightarrow> cell list \<Rightarrow> cell list \<Rightarrow> cell list
     \<Rightarrow> cell list \<Rightarrow> cell list \<Rightarrow> cell list \<Rightarrow> dataframe" where
  "frame15 n a0 a1 a2 a3 a4 a5 a6 a7 a8 a9 a10 a11 a12 a13 a14 =
  \<lparr>nrows = n, cols = [(''Index'', a0), (''Roll no'', a1), (''Names'', a2),
      (''WEEK1'', a3), (''1'', a4), (''WEEK2'', a5), (''2'', a6), (''WEEK3'', a7), (''3'', a8),
      (''WEEK4'', a9), (''4'', a10), (''WEEK5'', a11), (''5'', a12), (''WEEK6'', a13), (''6'', a14)]\<rparr>"

text \<open>The \<^verbatim>\<open>float64\<close> number \<^verbatim>\<open>(x / 5) * 100\<close> of line 76 for one value.\<close>

definition scale_star :: "cell \<Rightarrow> fval" where
  "scale_star x = f64_mul (f64_div (to_f64 x) 5) 100"

text \<open>
  The six week values of a sheet row after the coercion of line 70: the cells at the
  template positions 4, 6, 8, 10, 12 and 14, which line 51 labels \<^verbatim>\<open>'1'\<close> to
  \<^verbatim>\<open>'6'\<close>.
\<close>

definition week_values :: "pylib \<Rightarrow> nat list \<Rightarrow> cell list \<Rightarrow> cell list" where
  "week_values L t row = map (\<lambda>k. coerce L (cell_at row (t ! k))) [4, 6, 8, 10, 12, 14]"

text \<open>The dictionary of one sheet row in the table.\<close>

definition row_record :: "pylib \<Rightarrow> nat list \<Rightarrow> cell list \<Rightarrow> (string \<times> cell) list" where
  "row_record L t row =
     (let raw = (\<lambda>k. cell_at row (t ! k)); w = (\<lambda>k. coerce L (cell_at row (t ! k)));
          h = np_max (week_values L t row)
      in [(''Index'', raw 0), (''Roll no'', raw 1), (''Names'', raw 2),
          (''WEEK1'', raw 3), (''1'', w 4), (''WEEK2'', raw 5), (''2'', w 6),
          (''WEEK3'', raw 7), (''3'', w 8), (''WEEK4'', raw 9), (''4'', w 10),
          (''WEEK5'', raw 11), (''5'', w 12), (''WEEK6'', raw 13), (''6'', w 14),
          (''Highest_Star'', h), (''Percentage'', percentage_text (scale_star h))])"

text \<open>The three outputs for a sheet \<open>g\<close>, whose data rows are \<open>drop 9 g\<close>.\<close>

definition sheet_report :: "pylib \<Rightarrow> nat list \<Rightarrow> cell list list \<Rightarrow> component \<times> figure \<times> figure" where
  "sheet_report L t g =
     (let rows = drop 9 g; hs = map (\<lambda>row. np_max (week_values L t row)) rows
      in (DataTable
            \<lparr>table_columns = map (\<lambda>col. (col, col)) (column_names @ [''Highest_Star'', ''Percentage'']),
             table_data = map (row_record L t) rows,
             page_size = length rows\<rparr>,
          BarGraph
            (map (\<lambda>(k, nm).
                 \<lparr>trace_x = drop 2 (map (\<lambda>row. cell_at row (t ! 2)) rows),
                  trace_y = drop 2 (map (\<lambda>row. coerce L (cell_at row (t ! k))) rows),
                  trace_name = nm\<rparr>)
               [(4, ''Week 1''), (6, ''Week 2''), (8, ''Week 3''),
                (10, ''Week 4''), (12, ''Week 5''), (14, ''Week 6'')]),
          PieChart
            \<lparr>pie_labels = map (star_label L) (sort_index (value_counts hs)),
             pie_values = map snd (sort_index (value_counts hs))\<rparr>))"

text \<open>
  The number of columns of the frame \<open>read_excel\<close> returns: none when the sheet has
  no row after the eight skipped ones.
\<close>

definition frame_ncols :: "cell list list \<Rightarrow> nat" where
  "frame_ncols g = (if length g \<le> 8 then 0 else grid_width g)"

text \<open>The range the specification states for \<^verbatim>\<open>Highest_Star\<close>.\<close>

definition star_in_range :: "cell \<Rightarrow> bool" where
  "star_in_range x = (case x of NaN \<Rightarrow> True | Num h \<Rightarrow> 0 \<le> h \<and> h \<le> 5 | Str s \<Rightarrow> False)"

section \<open>An example upload\<close>

text \<open>
  A sheet for the first template: eight title rows, the header row and five data rows of
  64 cells, with the week scores at the positions 13, 23, 33, 43, 53 and 63. The library
  functions are fixed to small tables: the payload \<^verbatim>\<open>QUJD\<close> decodes, the decoded
  bytes are the workbook of the given sheet, and the string \<^verbatim>\<open>4\<close> parses as a
  number.
\<close>

definition ex_row :: "cell \<Rightarrow> cell list \<Rightarrow> cell list" where
  "ex_row name ws = (replicate 64 NaN)[0 := Num 1, 1 := Str ''R1'', 2 := name, 6 := Str ''w'',
     13 := ws ! 0, 23 := ws ! 1, 33 := ws ! 2, 43 := ws ! 3, 53 := ws ! 4, 63 := ws ! 5]"

definition ex_sheet :: "cell list list" where
  "ex_sheet = replicate 8 [Str ''title''] @
     [replicate 64 (Str ''h''),
      ex_row (Str ''A'') [Num 7, NaN, Str ''abc'', Num 2, Num 3, Num 1],
      ex_row (Str ''B'') [NaN, Str ''-'', NaN, NaN, NaN, NaN],
      ex_row (Str ''C'') [Num 3, Num 5, Num 4, Str ''4'', Num 0, NaN],
      ex_row (Str ''D'') [Num 1, Num 2, Num (5 / 2), NaN, NaN, NaN],
      ex_row (Str ''E'') [Num 5, Num 5, Num 5, Num 5, Num 5, Num 5]]"

definition ex_lib :: "cell list list \<Rightarrow> pylib" where
  "ex_lib g = \<lparr>b64decode = (\<lambda>s. if s = ''QUJD'' then Some ''ABC'' else None),
     sheet_rows = (\<lambda>b. if b = ''ABC'' then Some g else None),
     float_of_str = (\<lambda>s. if s = ''4'' then Some 4 else None),
     str_of_num = (\<lambda>r. if r = 5 then ''5.0'' else if r = 7 then ''7.0''
                        else if r = 5 / 2 then ''2.5''
                        else if r = 8070450532247929 / 4611686018427387904 then ''0.00175''
                        else if 10 ^ 300 < r then ''8.98846567431158e+307'' else ''?'')\<rparr>"

definition ex_contents :: string where
  "ex_contents = ''data:application/vnd.ms-excel;base64,QUJD''"

text \<open>The outputs of the example.\<close>

definition ex_record :: "cell \<Rightarrow> cell list \<Rightarrow> cell \<Rightarrow> string \<Rightarrow> (string \<times> cell) list" where
  "ex_record name ws h p =
     [(''Index'', Num 1), (''Roll no'', Str ''R1''), (''Names'', name),
      (''WEEK1'', Str ''w''), (''1'', ws ! 0), (''WEEK2'', NaN), (''2'', ws ! 1),
      (''WEEK3'', NaN), (''3'', ws ! 2), (''WEEK4'', NaN), (''4'', ws ! 3),
      (''WEEK5'', NaN), (''5'', ws ! 4), (''WEEK6'', NaN), (''6'', ws ! 5),
      (''Highest_Star'', h), (''Percentage'', Str p)]"

definition ex_records :: "(string \<times> cell) list list" where
  "ex_records =
     [ex_record (Str ''A'') [Num 7, NaN, NaN, Num 2, Num 3, Num 1] (Num 7) ''140.00%'',
      ex_record (Str ''B'') [NaN, NaN, NaN, NaN, NaN, NaN] NaN '''',
      ex_record (Str ''C'') [Num 3, Num 5, Num 4, Num 4, Num 0, NaN] (Num 5) ''100.00%'',
      ex_record (Str ''D'') [Num 1, Num 2, Num (5 / 2), NaN, NaN, NaN] (Num (5 / 2)) ''50.00%'',
      ex_record (Str ''E'') [Num 5, Num 5, Num 5, Num 5, Num 5, Num 5] (Num 5) ''100.00%'']"

definition ex_table :: datatable where
  "ex_table =
     \<lparr>table_columns = map (\<lambda>col. (col, col)) (column_names @ [''Highest_Star'', ''Percentage'']),
      table_data = ex_records, page_size = 5\<rparr>"

definition ex_bars :: "trace list" where
  "ex_bars =
     [\<lparr>trace_x = [Str ''C'', Str ''D'', Str ''E''], trace_y = [Num 3, Num 1, Num 5], trace_name = ''Week 1''\<rparr>,
      \<lparr>trace_x = [Str ''C'', Str ''D'', Str ''E''], trace_y = [Num 5, Num 2, Num 5], trace_name = ''Week 2''\<rparr>,
      \<lparr>trace_x = [Str ''C'', Str ''D'', Str ''E''], trace_y = [Num 4, Num (5 / 2), Num 5], trace_name = ''Week 3''\<rparr>,
      \<lparr>trace_x = [Str ''C'', Str ''D'', Str ''E''], trace_y = [Num 4, NaN, Num 5], trace_name = ''Week 4''\<rparr>,
      \<lparr>trace_x = [Str ''C'', Str ''D'', Str ''E''], trace_y = [Num 0, NaN, Num 5], trace_name = ''Week 5''\<rparr>,
      \<lparr>trace_x = [Str ''C'', Str ''D'', Str ''E''], trace_y = [NaN, NaN, Num 5], trace_name = ''Week 6''\<rparr>]"

definition ex_pie :: pie where
  "ex_pie =
     \<lparr>pie_labels = [''1 students = 2.5 stars'', ''2 students = 5.0 stars'', ''1 students = 7.0 stars''],
      pie_values = [1, 2, 1]\<rparr>"










text \<open>
  A sheet of twelve rows with 63 columns, the positions 0 to 62: one column short of the
  first template, whose highest position is 63.
\<close>

definition ex_narrow_sheet :: "cell list list" where
  "ex_narrow_sheet = replicate 12 (replicate 63 (Num 1))"

section \<open>What update_output computes\<close>

lemma len15:
  "length (xs::'a list) = 15 \<Longrightarrow> \<exists>a0 a1 a2 a3 a4 a5 a6 a7 a8 a9 a10 a11 a12 a13 a14.
     xs = [a0, a1, a2, a3, a4, a5, a6, a7, a8, a9, a10, a11, a12, a13, a14]"
  by (simp add: numeral_eq_Suc length_Suc_conv) blast

lemma drop8_Cons:
  assumes "drop 8 g = h # rows"
  shows "rows = drop 9 g \<and> 8 < length g"
proof -
  have "drop 1 (drop 8 g) = rows" using assms by simp
  then have "rows = drop 9 g" by simp
  moreover have "8 < length g" using assms by (cases "8 < length g") auto
  ultimately show ?thesis by simp
qed

lemma read_excel_contents_Inr:
  assumes "read_excel_contents L c t = Inr df"
  shows "\<exists>p s decoded g. split_comma c = [p, s] \<and> b64decode L s = Some decoded
           \<and> sheet_rows L decoded = Some g \<and> 8 < length g \<and> length t = 15
           \<and> (\<forall>k\<in>set t. k < grid_width g)
           \<and> df = \<lparr>nrows = length g - 9,
                    cols = zip column_names (map (\<lambda>k. map (\<lambda>r. cell_at r k) (drop 9 g)) t)\<rparr>"
proof -
  from assms obtain p s where ps: "split_comma c = [p, s]"
    by (auto simp: read_excel_contents_def split: list.splits)
  from assms ps obtain decoded where dec: "b64decode L s = Some decoded"
    by (auto simp: read_excel_contents_def split: option.splits)
  from assms ps dec obtain n cs where re: "read_excel L decoded 8 = Inr (n, cs)"
    by (auto simp: read_excel_contents_def split: sum.splits)
  from assms ps dec re have il: "list_all (\<lambda>k. k < length cs) t" and len: "length t = length column_names"
    and df: "df = \<lparr>nrows = n, cols = zip column_names (map (\<lambda>k. cs ! k) t)\<rparr>"
    by (auto simp: read_excel_contents_def iloc_cols_def split: if_splits)
  from len have len15: "length t = 15" by (simp add: column_names_def)
  from re obtain g where g: "sheet_rows L decoded = Some g"
    by (auto simp: read_excel_def split: option.splits)
  have ne: "drop 8 g \<noteq> []"
  proof
    assume "drop 8 g = []"
    with re g have "cs = []" by (simp add: read_excel_def)
    with il len15 show False by (cases t) auto
  qed
  then obtain h rows where hr: "drop 8 g = h # rows" by (cases "drop 8 g") auto
  from drop8_Cons[OF hr] have rows: "rows = drop 9 g" and g8: "8 < length g" by simp_all
  from re g hr rows have n: "n = length g - 9"
    and cs: "cs = map (\<lambda>j. map (\<lambda>r. cell_at r j) (drop 9 g)) [0..<grid_width g]"
    by (simp_all add: read_excel_def)
  from il cs have bound: "\<forall>k\<in>set t. k < grid_width g" by (simp add: list_all_iff)
  have "map (\<lambda>k. cs ! k) t = map (\<lambda>k. map (\<lambda>r. cell_at r k) (drop 9 g)) t"
    using bound cs by simp
  with df n ps dec g g8 len15 bound show ?thesis by simp
qed

lemma zip_names15:
  "\<lparr>nrows = n, cols = zip column_names [a0, a1, a2, a3, a4, a5, a6, a7, a8, a9, a10, a11, a12, a13, a14]\<rparr>
     = frame15 n a0 a1 a2 a3 a4 a5 a6 a7 a8 a9 a10 a11 a12 a13 a14"
  by (simp add: frame15_def column_names_def)

lemma coerce_frame15:
  "coerce_numeric_columns L (frame15 n a0 a1 a2 a3 a4 a5 a6 a7 a8 a9 a10 a11 a12 a13 a14)
   = frame15 n a0 a1 a2 a3 (to_numeric L a4) a5 (to_numeric L a6) a7 (to_numeric L a8) a9
       (to_numeric L a10) a11 (to_numeric L a12) a13 (to_numeric L a14)"
  by (simp add: coerce_numeric_columns_def numeric_columns_def frame15_def setcol_def getcol_def)

lemma highest_frame15:
  "add_highest_star (frame15 n a0 a1 a2 a3 a4 a5 a6 a7 a8 a9 a10 a11 a12 a13 a14)
   = \<lparr>nrows = n, cols = cols (frame15 n a0 a1 a2 a3 a4 a5 a6 a7 a8 a9 a10 a11 a12 a13 a14) @
     [(''Highest_Star'', map (\<lambda>i. np_max [a4 ! i, a6 ! i, a8 ! i, a10 ! i, a12 ! i, a14 ! i]) [0..<n])]\<rparr>"
  by (simp add: add_highest_star_def numeric_columns_def frame15_def setcol_def getcol_def apply_rows_def row_of_def)

lemma report_frame15:
  "report_frame L (frame15 n a0 a1 a2 a3 a4 a5 a6 a7 a8 a9 a10 a11 a12 a13 a14)
   = \<lparr>nrows = n, cols = [(''Index'', a0), (''Roll no'', a1), (''Names'', a2),
      (''WEEK1'', a3), (''1'', to_numeric L a4), (''WEEK2'', a5), (''2'', to_numeric L a6),
      (''WEEK3'', a7), (''3'', to_numeric L a8), (''WEEK4'', a9), (''4'', to_numeric L a10),
      (''WEEK5'', a11), (''5'', to_numeric L a12), (''WEEK6'', a13), (''6'', to_numeric L a14),
      (''Highest_Star'', map (\<lambda>i. np_max [to_numeric L a4 ! i, to_numeric L a6 ! i,
          to_numeric L a8 ! i, to_numeric L a10 ! i, to_numeric L a12 ! i, to_numeric L a14 ! i]) [0..<n]),
      (''Percentage'', map (\<lambda>i. percentage_text (scale_star (np_max [to_numeric L a4 ! i, to_numeric L a6 ! i,
          to_numeric L a8 ! i, to_numeric L a10 ! i, to_numeric L a12 ! i, to_numeric L a14 ! i]))) [0..<n])]\<rparr>"
  unfolding report_frame_def coerce_frame15 highest_frame15
  by (simp add: add_percentage_def frame15_def setcol_def getcol_def ser_mul_def ser_div_def
      scale_star_def comp_def)

lemma map_nth_fun: "map (\<lambda>i. F (xs ! i)) [0..<length xs] = map F xs"
  by (rule nth_equalityI) simp_all

lemma report_of_rows:
  fixes rows :: "cell list list"
  defines "A \<equiv> \<lambda>k. map (\<lambda>r. cell_at r k) rows"
  assumes t: "t = [t0, t1, t2, t3, t4, t5, t6, t7, t8, t9, t10, t11, t12, t13, t14]"
  shows "report_frame L (frame15 (length rows) (A t0) (A t1) (A t2) (A t3) (A t4) (A t5) (A t6) (A t7)
            (A t8) (A t9) (A t10) (A t11) (A t12) (A t13) (A t14))
     = \<lparr>nrows = length rows, cols = [(''Index'', A t0), (''Roll no'', A t1), (''Names'', A t2),
      (''WEEK1'', A t3), (''1'', map (\<lambda>r. coerce L (cell_at r t4)) rows), (''WEEK2'', A t5), (''2'', map (\<lambda>r. coerce L (cell_at r t6)) rows),
      (''WEEK3'', A t7), (''3'', map (\<lambda>r. coerce L (cell_at r t8)) rows), (''WEEK4'', A t9), (''4'', map (\<lambda>r. coerce L (cell_at r t10)) rows),
      (''WEEK5'', A t11), (''5'', map (\<lambda>r. coerce L (cell_at r t12)) rows), (''WEEK6'', A t13), (''6'', map (\<lambda>r. coerce L (cell_at r t14)) rows),
      (''Highest_Star'', map (\<lambda>row. np_max (week_values L t row)) rows),
      (''Percentage'', map (\<lambda>row. percentage_text (scale_star (np_max (week_values L t row)))) rows)]\<rparr>"
proof -
  have hs: "map (\<lambda>i. np_max [to_numeric L (A t4) ! i, to_numeric L (A t6) ! i,
          to_numeric L (A t8) ! i, to_numeric L (A t10) ! i, to_numeric L (A t12) ! i, to_numeric L (A t14) ! i]) [0..<length rows]
     = map (\<lambda>row. np_max (week_values L t row)) rows"
    by (rule nth_equalityI) (simp_all add: A_def to_numeric_def week_values_def t)
  have pc: "map (\<lambda>i. percentage_text (scale_star (np_max [to_numeric L (A t4) ! i, to_numeric L (A t6) ! i,
          to_numeric L (A t8) ! i, to_numeric L (A t10) ! i, to_numeric L (A t12) ! i, to_numeric L (A t14) ! i]))) [0..<length rows]
     = map (\<lambda>row. percentage_text (scale_star (np_max (week_values L t row)))) rows"
    by (rule nth_equalityI) (simp_all add: A_def to_numeric_def week_values_def t)
  show ?thesis
    unfolding report_frame15 hs pc by (simp add: A_def to_numeric_def)
qed

lemma to_records_rows:
  fixes rows :: "cell list list"
  defines "A \<equiv> \<lambda>k. map (\<lambda>r. cell_at r k) rows"
  assumes t: "t = [t0, t1, t2, t3, t4, t5, t6, t7, t8, t9, t10, t11, t12, t13, t14]"
  shows "to_records (report_frame L (frame15 (length rows) (A t0) (A t1) (A t2) (A t3) (A t4) (A t5) (A t6) (A t7)
            (A t8) (A t9) (A t10) (A t11) (A t12) (A t13) (A t14))) = map (row_record L t) rows"
  unfolding A_def report_of_rows[OF t]
  by (rule nth_equalityI) (simp_all add: to_records_def row_record_def t Let_def)

lemma update_output_Inr:
  assumes "update_output L (Some c) t = Inr out"
  shows "\<exists>p s decoded g. split_comma c = [p, s] \<and> b64decode L s = Some decoded
           \<and> sheet_rows L decoded = Some g \<and> 8 < length g \<and> length t = 15
           \<and> (\<forall>k\<in>set t. k < grid_width g) \<and> out = sheet_report L t g"
proof -
  from assms obtain df0 where df0: "read_excel_contents L c t = Inr df0"
    and out: "out = (DataTable (make_table (report_frame L df0)),
                     BarGraph (bar_graph_data (report_frame L df0)),
                     PieChart (star_count_pie L (report_frame L df0)))"
    by (auto simp: update_output_def Let_def split: sum.splits)
  from read_excel_contents_Inr[OF df0] obtain p s decoded g where
    ps: "split_comma c = [p, s]" and dec: "b64decode L s = Some decoded"
    and g: "sheet_rows L decoded = Some g" and g8: "8 < length g" and lt: "length t = 15"
    and bound: "\<forall>k\<in>set t. k < grid_width g"
    and df: "df0 = \<lparr>nrows = length g - 9,
                    cols = zip column_names (map (\<lambda>k. map (\<lambda>r. cell_at r k) (drop 9 g)) t)\<rparr>"
    by blast
  from len15[OF lt] obtain t0 t1 t2 t3 t4 t5 t6 t7 t8 t9 t10 t11 t12 t13 t14 where
    t: "t = [t0, t1, t2, t3, t4, t5, t6, t7, t8, t9, t10, t11, t12, t13, t14]" by blast
  define rows where "rows = drop 9 g"
  define A where "A = (\<lambda>k. map (\<lambda>r. cell_at r k) rows)"
  have n: "length g - 9 = length rows" by (simp add: rows_def)
  have df15: "df0 = frame15 (length rows) (A t0) (A t1) (A t2) (A t3) (A t4) (A t5) (A t6) (A t7)
            (A t8) (A t9) (A t10) (A t11) (A t12) (A t13) (A t14)"
    unfolding df n by (simp add: t A_def rows_def[symmetric] zip_names15[symmetric])
  have rf: "report_frame L df0 = \<lparr>nrows = length rows, cols = [(''Index'', A t0), (''Roll no'', A t1), (''Names'', A t2),
      (''WEEK1'', A t3), (''1'', map (\<lambda>r. coerce L (cell_at r t4)) rows), (''WEEK2'', A t5), (''2'', map (\<lambda>r. coerce L (cell_at r t6)) rows),
      (''WEEK3'', A t7), (''3'', map (\<lambda>r. coerce L (cell_at r t8)) rows), (''WEEK4'', A t9), (''4'', map (\<lambda>r. coerce L (cell_at r t10)) rows),
      (''WEEK5'', A t11), (''5'', map (\<lambda>r. coerce L (cell_at r t12)) rows), (''WEEK6'', A t13), (''6'', map (\<lambda>r. coerce L (cell_at r t14)) rows),
      (''Highest_Star'', map (\<lambda>row. np_max (week_values L t row)) rows),
      (''Percentage'', map (\<lambda>row. percentage_text (scale_star (np_max (week_values L t row)))) rows)]\<rparr>"
    unfolding df15 A_def by (rule report_of_rows[OF t])
  have recs: "to_records (report_frame L df0) = map (row_record L t) rows"
    unfolding df15 A_def by (rule to_records_rows[OF t])
  have tab: "make_table (report_frame L df0) =
      \<lparr>table_columns = map (\<lambda>col. (col, col)) (column_names @ [''Highest_Star'', ''Percentage'']),
       table_data = map (row_record L t) rows, page_size = length rows\<rparr>"
    unfolding make_table_def recs by (simp add: rf column_names_def)
  have bars: "bar_graph_data (report_frame L df0) =
       map (\<lambda>(k, nm).
                 \<lparr>trace_x = drop 2 (map (\<lambda>row. cell_at row (t ! 2)) rows),
                  trace_y = drop 2 (map (\<lambda>row. coerce L (cell_at row (t ! k))) rows),
                  trace_name = nm\<rparr>)
               [(4, ''Week 1''), (6, ''Week 2''), (8, ''Week 3''),
                (10, ''Week 4''), (12, ''Week 5''), (14, ''Week 6'')]"
    unfolding rf bar_graph_data_def by (simp add: getcol_def t A_def)
  have hs: "getcol (report_frame L df0) ''Highest_Star'' = map (\<lambda>row. np_max (week_values L t row)) rows"
    unfolding rf by (simp add: getcol_def)
  have "out = sheet_report L t g"
    unfolding out tab bars star_count_pie_def hs sheet_report_def rows_def[symmetric] Let_def ..
  with ps dec g g8 lt bound show ?thesis by blast
qed

lemma read_excel_ncols:
  "sheet_rows L d = Some g \<Longrightarrow> \<exists>n cs. read_excel L d 8 = Inr (n, cs) \<and> length cs = frame_ncols g"
  by (cases "drop 8 g") (auto simp: read_excel_def frame_ncols_def)

lemma read_excel_contents_eq:
  "read_excel_contents L c t =
     (case split_comma c of
        [p, s] \<Rightarrow>
          (case b64decode L s of
             None \<Rightarrow> Inl DecodeError
           | Some d \<Rightarrow>
               (case sheet_rows L d of
                  None \<Rightarrow> Inl ParseError
                | Some g \<Rightarrow>
                    if \<exists>k\<in>set t. frame_ncols g \<le> k then Inl SchemaError
                    else if length t \<noteq> 15 then Inl LengthMismatch
                    else Inr \<lparr>nrows = length g - 9,
                          cols = zip column_names (map (\<lambda>k. map (\<lambda>r. cell_at r k) (drop 9 g)) t)\<rparr>))
      | _ \<Rightarrow> Inl UnpackError)"
proof (cases "\<exists>p s. split_comma c = [p, s]")
  case False
  then show ?thesis
    by (auto simp: read_excel_contents_def split: list.splits)
next
  case True
  then obtain p s where ps: "split_comma c = [p, s]" by blast
  show ?thesis
  proof (cases "b64decode L s")
    case None
    with ps show ?thesis by (simp add: read_excel_contents_def)
  next
    case (Some d)
    note dec = this
    show ?thesis
    proof (cases "sheet_rows L d")
      case None
      with ps dec show ?thesis by (simp add: read_excel_contents_def read_excel_def)
    next
      case (Some g)
      note g = this
      show ?thesis
      proof (cases "drop 8 g")
        case Nil
        then have le: "length g \<le> 8" by simp
        have re: "read_excel L d 8 = Inr (0, [])" using g Nil by (simp add: read_excel_def)
        show ?thesis
        proof (cases t)
          case Nil
          with ps dec g re le show ?thesis
            by (simp add: read_excel_contents_def iloc_cols_def column_names_def frame_ncols_def)
        next
          case (Cons k ks)
          with ps dec g re le show ?thesis
            by (auto simp: read_excel_contents_def iloc_cols_def frame_ncols_def)
        qed
      next
        case (Cons h rows)
        from drop8_Cons[OF Cons] have rows: "rows = drop 9 g" and g8: "8 < length g" by simp_all
        have re: "read_excel L d 8 = Inr (length g - 9,
              map (\<lambda>j. map (\<lambda>r. cell_at r j) (drop 9 g)) [0..<grid_width g])"
          using g Cons rows by (simp add: read_excel_def)
        have nc: "frame_ncols g = grid_width g" using g8 by (simp add: frame_ncols_def)
        show ?thesis
        proof (cases "\<exists>k\<in>set t. grid_width g \<le> k")
          case True
          then have "\<not> list_all (\<lambda>k. k < grid_width g) t" by (fastforce simp: list_all_iff)
          with ps dec g re nc True show ?thesis
            by (simp add: read_excel_contents_def iloc_cols_def)
        next
          case False
          then have la: "list_all (\<lambda>k. k < grid_width g) t" by (fastforce simp: list_all_iff)
          have il: "iloc_cols (map (\<lambda>j. map (\<lambda>r. cell_at r j) (drop 9 g)) [0..<grid_width g]) t
                 = Inr (map (\<lambda>k. map (\<lambda>r. cell_at r k) (drop 9 g)) t)"
            using False la by (auto simp: iloc_cols_def)
          from ps dec g re nc False il show ?thesis
            by (simp add: read_excel_contents_def column_names_def)
        qed
      qed
    qed
  qed
qed

lemma update_output_eq:
  "update_output L (Some c) t =
     (case split_comma c of
        [p, s] \<Rightarrow>
          (case b64decode L s of
             None \<Rightarrow> Inl DecodeError
           | Some d \<Rightarrow>
               (case sheet_rows L d of
                  None \<Rightarrow> Inl ParseError
                | Some g \<Rightarrow>
                    if \<exists>k\<in>set t. frame_ncols g \<le> k then Inl SchemaError
                    else if length t \<noteq> 15 then Inl LengthMismatch
                    else Inr (sheet_report L t g)))
      | _ \<Rightarrow> Inl UnpackError)"
proof (cases "update_output L (Some c) t")
  case (Inl e)
  then have "read_excel_contents L c t = Inl e"
    by (auto simp: update_output_def Let_def split: sum.splits)
  then show ?thesis unfolding Inl
    by (auto simp: read_excel_contents_eq split: list.splits option.splits if_splits)
next
  case (Inr out)
  from update_output_Inr[OF Inr] obtain p s decoded g where
    "split_comma c = [p, s]" "b64decode L s = Some decoded"
    "sheet_rows L decoded = Some g" "8 < length g" "length t = 15"
    "\<forall>k\<in>set t. k < grid_width g" "out = sheet_report L t g" by blast
  then show ?thesis unfolding Inr by (auto simp: frame_ncols_def)
qed

lemma set_dropna: "set (dropna ws) = {v. Num v \<in> set ws}"
  by (induction ws rule: dropna.induct) auto

lemma np_max_Max:
  "np_max ws = (if {v. Num v \<in> set ws} = {} then NaN else Num (Max {v. Num v \<in> set ws}))"
proof (cases "dropna ws")
  case Nil
  then have "{v. Num v \<in> set ws} = {}" using set_dropna[of ws] by simp
  with Nil show ?thesis by (simp add: np_max_def)
next
  case (Cons r rs)
  then have s: "{v. Num v \<in> set ws} = set (r # rs)" using set_dropna[of ws] by simp
  have "Max (set (r # rs)) = fold max rs r" by (rule Max.set_eq_fold)
  with Cons s show ?thesis by (simp add: np_max_def)
qed

lemma coerce_cases: "coerce L c = NaN \<or> (\<exists>v. coerce L c = Num v)"
  by (auto simp: coerce_def split: cell.splits option.splits)

lemma np_max_cases: "np_max ws = NaN \<or> (\<exists>v. np_max ws = Num v \<and> Num v \<in> set ws)"
proof (cases "{v. Num v \<in> set ws} = {}")
  case True
  then show ?thesis by (simp add: np_max_Max)
next
  case False
  have "finite {v. Num v \<in> set ws}" using set_dropna[of ws, symmetric] by simp
  from Max_in[OF this False] have "Num (Max {v. Num v \<in> set ws}) \<in> set ws" by simp
  with False show ?thesis by (simp add: np_max_Max)
qed

lemma count_dropna: "count_list (dropna hs) v = length (filter (\<lambda>c. c = Num v) hs)"
  by (induction hs rule: dropna.induct) auto

lemma length_dropna: "length (dropna hs) = length (filter (\<lambda>c. \<exists>v. c = Num v) hs)"
  by (induction hs rule: dropna.induct) auto

lemma mset_value_counts:
  "mset (sort_index (value_counts hs)) = mset (map (\<lambda>v. (v, count_list (dropna hs) v)) (remdups (dropna hs)))"
  by (simp add: sort_index_def value_counts_def Let_def)

lemma set_value_counts:
  "set (sort_index (value_counts hs)) = (\<lambda>v. (v, count_list (dropna hs) v)) ` set (dropna hs)"
  using arg_cong[OF mset_value_counts[of hs], where f=set_mset] by simp

lemma keys_value_counts:
  "sorted (map fst (sort_index (value_counts hs)))"
  "distinct (map fst (sort_index (value_counts hs)))"
  "set (map fst (sort_index (value_counts hs))) = set (dropna hs)"
proof -
  show "sorted (map fst (sort_index (value_counts hs)))"
    by (simp add: sort_index_def)
  have m: "mset (map fst (sort_index (value_counts hs))) = mset (remdups (dropna hs))"
    using arg_cong[OF mset_value_counts[of hs], where f="image_mset fst"]
    by (simp add: comp_def flip: mset_map)
  have "distinct (remdups (dropna hs))" by simp
  then show "distinct (map fst (sort_index (value_counts hs)))"
    using m by (metis mset_eq_imp_distinct_iff)
  show "set (map fst (sort_index (value_counts hs))) = set (dropna hs)"
    using arg_cong[OF m, where f=set_mset] by simp
qed

lemma sum_value_counts:
  "sum_list (map snd (sort_index (value_counts hs))) = length (dropna hs)"
proof -
  have "mset (map snd (sort_index (value_counts hs))) = mset (map (count_list (dropna hs)) (remdups (dropna hs)))"
    using arg_cong[OF mset_value_counts[of hs], where f="image_mset snd"]
    by (simp add: comp_def flip: mset_map)
  then have "sum_list (map snd (sort_index (value_counts hs)))
               = sum_list (map (count_list (dropna hs)) (remdups (dropna hs)))"
    by (metis sum_mset_sum_list)
  also have "\<dots> = sum (count_list (dropna hs)) (set (dropna hs))"
    by (simp add: sum.distinct_set_conv_list[symmetric])
  also have "\<dots> = length (dropna hs)"
    by (rule sum_count_set) simp_all
  finally show ?thesis .
qed

lemma split_comma_nonempty: "split_comma s \<noteq> []"
  by (induction s) (auto split: list.splits)

lemma split_comma_prefix:
  "CHR '','' \<notin> set p \<Longrightarrow> split_comma (p @ CHR '','' # s) = p # split_comma s"
  by (induction p) (auto split: list.splits)



lemma ex_output:
  "update_output (ex_lib ex_sheet) (Some ex_contents) columns_to_keep_page1
     = Inr (DataTable ex_table, BarGraph ex_bars, PieChart ex_pie)"
  by code_simp

lemma ex_split: "split_comma ex_contents = [''data:application/vnd.ms-excel;base64'', ''QUJD'']"
  by code_simp

lemma record_fields:
  "map_of (row_record L t row) ''Highest_Star'' = Some (np_max (week_values L t row))"
  "map_of (row_record L t row) ''Percentage'' = Some (percentage_text (scale_star (np_max (week_values L t row))))"
  "map (map_of (row_record L t row)) numeric_columns = map Some (week_values L t row)"
  by (simp_all add: row_record_def week_values_def numeric_columns_def Let_def)

lemma table_data_record:
  assumes "update_output L (Some c) t = Inr (DataTable tb, bars, pchart)" and "r \<in> set (table_data tb)"
  shows "\<exists>row. r = row_record L t row"
proof -
  from update_output_Inr[OF assms(1)] obtain g where "(DataTable tb, bars, pchart) = sheet_report L t g"
    by blast
  then have "table_data tb = map (row_record L t) (drop 9 g)"
    by (simp add: sheet_report_def Let_def)
  with assms(2) show ?thesis by auto
qed

text \<open>Success determines the sheet, and the outputs are those of \<open>sheet_report\<close>.\<close>

lemma update_output_sheet:
  assumes "update_output L (Some c) t = Inr out"
    and "split_comma c = [p, s]" "b64decode L s = Some decoded" "sheet_rows L decoded = Some g"
  shows "out = sheet_report L t g \<and> 8 < length g \<and> length t = 15 \<and> (\<forall>k\<in>set t. k < grid_width g)"
proof -
  from update_output_Inr[OF assms(1)] obtain p' s' decoded' g' where
    h: "split_comma c = [p', s']" "b64decode L s' = Some decoded'"
    "sheet_rows L decoded' = Some g'" "8 < length g'" "length t = 15"
    "\<forall>k\<in>set t. k < grid_width g'" "out = sheet_report L t g'" by blast
  from h(1) assms(2) have "s' = s" by simp
  with h(2) assms(3) have "decoded' = decoded" by simp
  with h(3) assms(4) have "g' = g" by simp
  with h show ?thesis by simp
qed

lemma update_output_success:
  assumes "split_comma c = [p, s]" "b64decode L s = Some decoded" "sheet_rows L decoded = Some g"
    and "8 < length g" "length t = 15" "\<forall>k\<in>set t. k < grid_width g"
  shows "update_output L (Some c) t = Inr (sheet_report L t g)"
proof -
  have "\<not> (\<exists>k\<in>set t. frame_ncols g \<le> k)"
    using assms(4,6) by (fastforce simp: frame_ncols_def)
  with assms show ?thesis by (simp add: update_output_eq)
qed

lemma map_Some_mem:
  "map f ks = map Some ws \<Longrightarrow> w \<in> set ws \<Longrightarrow> \<exists>k\<in>set ks. f k = Some w"
proof -
  assume a: "map f ks = map Some ws" and w: "w \<in> set ws"
  have "Some w \<in> set (map Some ws)" using w by simp
  then have "Some w \<in> set (map f ks)" using a by simp
  then show ?thesis by auto
qed




























lemma length_filter_map: "length (filter P (map f xs)) = length (filter (\<lambda>x. P (f x)) xs)"
  by (induction xs) auto

lemma np_max_skip:
  "np_max (xs @ NaN # ys) = np_max (xs @ ys)"
  by (simp add: np_max_Max)

lemma less6: "(j::nat) < 6 \<Longrightarrow> j = 0 \<or> j = 1 \<or> j = 2 \<or> j = 3 \<or> j = 4 \<or> j = 5"
  by arith

subsection \<open>The examples in floating point\<close>






section \<open>The claims\<close>

subsection \<open>C1: Highest_Star is the maximum of the defined week values\<close>

text \<open>
  Claim C1. In every record of the table, \<^verbatim>\<open>Highest_Star\<close> is the maximum of the six
  week fields \<^verbatim>\<open>'1'\<close> to \<^verbatim>\<open>'6'\<close>, where undefined entries (\<open>NaN\<close> after the
  coercion) are ignored; when all six are undefined, \<^verbatim>\<open>Highest_Star\<close> is undefined.
  The six fields are each \<open>NaN\<close> or a number.
\<close>

theorem highest_star_is_max:
  assumes "update_output L (Some c) t = Inr (DataTable tb, bars, pchart)"
    and "r \<in> set (table_data tb)"
  shows "\<exists>ws. map (map_of r) numeric_columns = map Some ws
            \<and> (\<forall>w\<in>set ws. w = NaN \<or> (\<exists>v. w = Num v))
            \<and> map_of r ''Highest_Star''
                = Some (if {v. Num v \<in> set ws} = {} then NaN else Num (Max {v. Num v \<in> set ws}))"
proof -
  from table_data_record[OF assms] obtain row where r: "r = row_record L t row" by blast
  have "\<forall>w\<in>set (week_values L t row). w = NaN \<or> (\<exists>v. w = Num v)"
    using coerce_cases by (auto simp: week_values_def)
  then show ?thesis
    unfolding r by (intro exI[of _ "week_values L t row"]) (simp add: record_fields np_max_Max)
qed

text \<open>The fourth record of the example, with the week values 1, 2 and 5/2.\<close>

theorem highest_star_is_max_witness:
  "ex_records ! 3 \<in> set (table_data ex_table)
   \<and> (\<exists>ws. map (map_of (ex_records ! 3)) numeric_columns = map Some ws
            \<and> (\<forall>w\<in>set ws. w = NaN \<or> (\<exists>v. w = Num v))
            \<and> map_of (ex_records ! 3) ''Highest_Star''
                = Some (if {v. Num v \<in> set ws} = {} then NaN else Num (Max {v. Num v \<in> set ws})))"
proof -
  have m: "ex_records ! 3 \<in> set (table_data ex_table)"
    by (simp add: ex_table_def ex_records_def)
  from highest_star_is_max[OF ex_output m] m show ?thesis by blast
qed

subsection \<open>C2: the range of Highest_Star\<close>

text \<open>
  Claim C2, as amended. In every record, \<^verbatim>\<open>Highest_Star\<close> is undefined or equal to one
  of the six week values of that record; the source does not clamp it. So it lies in the
  interval from 0 to 5 whenever every defined week value of the record does.
\<close>

theorem highest_star_among_weeks:
  assumes "update_output L (Some c) t = Inr (DataTable tb, bars, pchart)"
    and "r \<in> set (table_data tb)"
  shows "(map_of r ''Highest_Star'' = Some NaN
          \<or> (\<exists>k\<in>set numeric_columns. \<exists>h. map_of r k = Some (Num h)
                \<and> map_of r ''Highest_Star'' = Some (Num h)))
       \<and> ((\<forall>k\<in>set numeric_columns. \<forall>v. map_of r k = Some (Num v) \<longrightarrow> 0 \<le> v \<and> v \<le> 5)
            \<longrightarrow> (\<exists>x. map_of r ''Highest_Star'' = Some x \<and> star_in_range x))"
proof -
  from table_data_record[OF assms] obtain row where r: "r = row_record L t row" by blast
  let ?ws = "week_values L t row"
  have hs: "map_of r ''Highest_Star'' = Some (np_max ?ws)" by (simp add: r record_fields)
  have ws: "map (map_of r) numeric_columns = map Some ?ws" by (simp add: r record_fields)
  have first: "map_of r ''Highest_Star'' = Some NaN
          \<or> (\<exists>k\<in>set numeric_columns. \<exists>h. map_of r k = Some (Num h)
                \<and> map_of r ''Highest_Star'' = Some (Num h))"
  proof (cases "np_max ?ws = NaN")
    case True
    with hs show ?thesis by simp
  next
    case False
    with np_max_cases[of ?ws] obtain v where v: "np_max ?ws = Num v" "Num v \<in> set ?ws" by blast
    from map_Some_mem[OF ws v(2)] obtain k where "k \<in> set numeric_columns" "map_of r k = Some (Num v)"
      by blast
    with hs v(1) show ?thesis by auto
  qed
  have second: "\<exists>x. map_of r ''Highest_Star'' = Some x \<and> star_in_range x"
    if bound: "\<forall>k\<in>set numeric_columns. \<forall>v. map_of r k = Some (Num v) \<longrightarrow> 0 \<le> v \<and> v \<le> 5"
  proof -
    from first show ?thesis
    proof
      assume "map_of r ''Highest_Star'' = Some NaN"
      then show ?thesis by (simp add: star_in_range_def)
    next
      assume "\<exists>k\<in>set numeric_columns. \<exists>h. map_of r k = Some (Num h)
                \<and> map_of r ''Highest_Star'' = Some (Num h)"
      then obtain k h where "k \<in> set numeric_columns" "map_of r k = Some (Num h)"
        "map_of r ''Highest_Star'' = Some (Num h)" by blast
      with bound show ?thesis by (auto simp: star_in_range_def)
    qed
  qed
  from first second show ?thesis by blast
qed

text \<open>The third record of the example, with the week values 3, 5, 4, 4 and 0.\<close>

theorem highest_star_among_weeks_witness:
  "ex_records ! 2 \<in> set (table_data ex_table)
   \<and> (map_of (ex_records ! 2) ''Highest_Star'' = Some NaN
          \<or> (\<exists>k\<in>set numeric_columns. \<exists>h. map_of (ex_records ! 2) k = Some (Num h)
                \<and> map_of (ex_records ! 2) ''Highest_Star'' = Some (Num h)))
   \<and> (\<exists>x. map_of (ex_records ! 2) ''Highest_Star'' = Some x \<and> star_in_range x)"
proof -
  have m: "ex_records ! 2 \<in> set (table_data ex_table)"
    by (simp add: ex_table_def ex_records_def)
  have b: "\<forall>k\<in>set numeric_columns. \<forall>v. map_of (ex_records ! 2) k = Some (Num v) \<longrightarrow> 0 \<le> v \<and> v \<le> 5"
    by (simp add: numeric_columns_def ex_records_def ex_record_def)
  from highest_star_among_weeks[OF ex_output m] b m show ?thesis by blast
qed

text \<open>
  The claim as stated, that \<^verbatim>\<open>Highest_Star\<close> is always undefined or within 0 to 5,
  fails on the first record of the example, whose week 1 cell holds 7.
\<close>

theorem highest_star_range_counterexample:
  "update_output (ex_lib ex_sheet) (Some ex_contents) columns_to_keep_page1
     = Inr (DataTable ex_table, BarGraph ex_bars, PieChart ex_pie)
   \<and> ex_records ! 0 \<in> set (table_data ex_table)
   \<and> map_of (ex_records ! 0) ''Highest_Star'' = Some (Num 7)
   \<and> \<not> star_in_range (Num 7)"
  using ex_output by (simp add: ex_table_def ex_records_def ex_record_def star_in_range_def)

subsection \<open>C3: the Percentage field\<close>




subsection \<open>C4: the star counts of the pie chart\<close>

text \<open>
  Claim C4. The pie chart is built from the groups of the records by
  \<^verbatim>\<open>Highest_Star\<close>, records with an undefined value left out: the groups are in
  strictly ascending order of the star value, one group for each value that occurs, each
  with the number of records of that value; the label of a group is
  \<^verbatim>\<open>"<count> students = <star> stars"\<close>, the values are the counts, and the counts
  add up to the number of records with a defined \<^verbatim>\<open>Highest_Star\<close>.
\<close>

theorem star_counts:
  assumes "update_output L (Some c) t = Inr (DataTable tb, bars, PieChart pc)"
  shows "\<exists>groups. sorted_wrt (<) (map fst groups)
      \<and> set (map fst groups) = {v. \<exists>r\<in>set (table_data tb). map_of r ''Highest_Star'' = Some (Num v)}
      \<and> (\<forall>(star, n)\<in>set groups.
            n = length (filter (\<lambda>r. map_of r ''Highest_Star'' = Some (Num star)) (table_data tb)))
      \<and> pie_labels pc
           = map (\<lambda>(star, n). str_int (int n) @ '' students = '' @ str_of_num L star @ '' stars'') groups
      \<and> pie_values pc = map snd groups
      \<and> sum_list (pie_values pc)
           = length (filter (\<lambda>r. \<exists>v. map_of r ''Highest_Star'' = Some (Num v)) (table_data tb))"
proof -
  from update_output_Inr[OF assms] obtain g where
    rep: "(DataTable tb, bars, PieChart pc) = sheet_report L t g" by blast
  define rows where "rows = drop 9 g"
  define hs where "hs = map (\<lambda>row. np_max (week_values L t row)) rows"
  define groups where "groups = sort_index (value_counts hs)"
  from rep have td: "table_data tb = map (row_record L t) rows"
    and lab: "pie_labels pc = map (star_label L) groups"
    and val: "pie_values pc = map snd groups"
    by (simp_all add: sheet_report_def Let_def rows_def hs_def groups_def)
  have star: "map_of (row_record L t row) ''Highest_Star'' = Some (Num v)
                \<longleftrightarrow> np_max (week_values L t row) = Num v" for row v
    by (simp add: record_fields)
  have "sorted_wrt (<) (map fst groups)"
    unfolding groups_def using keys_value_counts(1,2)[of hs] by (simp add: strict_sorted_iff)
  moreover have "set (map fst groups)
       = {v. \<exists>r\<in>set (table_data tb). map_of r ''Highest_Star'' = Some (Num v)}"
    unfolding groups_def keys_value_counts(3) set_dropna td
    by (force simp: hs_def star)
  moreover have "\<forall>(star, n)\<in>set groups.
            n = length (filter (\<lambda>r. map_of r ''Highest_Star'' = Some (Num star)) (table_data tb))"
  proof -
    have "length (filter (\<lambda>r. map_of r ''Highest_Star'' = Some (Num v)) (table_data tb))
            = count_list (dropna hs) v" for v
      unfolding td count_dropna hs_def by (simp add: length_filter_map star comp_def)
    then show ?thesis
      unfolding groups_def set_value_counts by auto
  qed
  moreover have "pie_labels pc
           = map (\<lambda>(star, n). str_int (int n) @ '' students = '' @ str_of_num L star @ '' stars'') groups"
    unfolding lab star_label_def ..
  moreover have "sum_list (pie_values pc)
           = length (filter (\<lambda>r. \<exists>v. map_of r ''Highest_Star'' = Some (Num v)) (table_data tb))"
    unfolding val groups_def sum_value_counts length_dropna td hs_def
    by (simp add: length_filter_map star comp_def)
  ultimately show ?thesis using val by blast
qed

text \<open>The example: one record with 5/2 stars, two with 5 and one with 7.\<close>

theorem star_counts_witness:
  "\<exists>groups. sorted_wrt (<) (map fst groups)
      \<and> set (map fst groups)
           = {v. \<exists>r\<in>set (table_data ex_table). map_of r ''Highest_Star'' = Some (Num v)}
      \<and> (\<forall>(star, n)\<in>set groups.
            n = length (filter (\<lambda>r. map_of r ''Highest_Star'' = Some (Num star)) (table_data ex_table)))
      \<and> pie_labels ex_pie
           = map (\<lambda>(star, n). str_int (int n) @ '' students = ''
                     @ str_of_num (ex_lib ex_sheet) star @ '' stars'') groups
      \<and> pie_values ex_pie = map snd groups
      \<and> sum_list (pie_values ex_pie)
           = length (filter (\<lambda>r. \<exists>v. map_of r ''Highest_Star'' = Some (Num v)) (table_data ex_table))"
  using star_counts[OF ex_output] .

subsection \<open>C5: the weekly series of the bar chart\<close>

text \<open>
  Claim C5. The bar chart has six traces, named Week 1 to Week 6 in this order; the
  \<^verbatim>\<open>x\<close> of each is the \<^verbatim>\<open>Names\<close> column of the table without its first two rows and
  the \<^verbatim>\<open>y\<close> of the \<open>k\<close>-th is the week column \<open>k\<close> without its first two rows. The
  table keeps every data row of the sheet, in the order of the sheet: its \<^verbatim>\<open>Names\<close>
  and week columns are the cells of the rows after the header row, the week cells coerced.
\<close>

theorem weekly_series:
  assumes "update_output L (Some c) t = Inr (DataTable tb, BarGraph bars, pchart)"
    and "split_comma c = [p, s]" "b64decode L s = Some decoded" "sheet_rows L decoded = Some g"
  shows "map trace_name bars = [''Week 1'', ''Week 2'', ''Week 3'', ''Week 4'', ''Week 5'', ''Week 6'']
     \<and> map (\<lambda>b. map Some (trace_x b)) bars
         = replicate 6 (drop 2 (map (\<lambda>r. map_of r ''Names'') (table_data tb)))
     \<and> map (\<lambda>b. map Some (trace_y b)) bars
         = map (\<lambda>k. drop 2 (map (\<lambda>r. map_of r k) (table_data tb))) [''1'', ''2'', ''3'', ''4'', ''5'', ''6'']
     \<and> length (table_data tb) = length (drop 9 g)
     \<and> map (\<lambda>r. map_of r ''Names'') (table_data tb) = map (\<lambda>row. Some (cell_at row (t ! 2))) (drop 9 g)
     \<and> map (\<lambda>k. map (\<lambda>r. map_of r k) (table_data tb)) [''1'', ''2'', ''3'', ''4'', ''5'', ''6'']
         = map (\<lambda>j. map (\<lambda>row. Some (coerce L (cell_at row (t ! j)))) (drop 9 g)) [4, 6, 8, 10, 12, 14]"
proof -
  from update_output_sheet[OF assms] have
    rep: "(DataTable tb, BarGraph bars, pchart) = sheet_report L t g" by simp
  define rows where "rows = drop 9 g"
  from rep have td: "table_data tb = map (row_record L t) rows"
    and bars: "bars = map (\<lambda>(k, nm).
                 \<lparr>trace_x = drop 2 (map (\<lambda>row. cell_at row (t ! 2)) rows),
                  trace_y = drop 2 (map (\<lambda>row. coerce L (cell_at row (t ! k))) rows),
                  trace_name = nm\<rparr>)
               [(4, ''Week 1''), (6, ''Week 2''), (8, ''Week 3''),
                (10, ''Week 4''), (12, ''Week 5''), (14, ''Week 6'')]"
    by (simp_all add: sheet_report_def Let_def rows_def)
  show ?thesis
    unfolding td bars rows_def[symmetric]
    by (simp add: row_record_def Let_def drop_map comp_def numeral_eq_Suc)
qed

text \<open>The example: five records, three points in each trace.\<close>

theorem weekly_series_witness:
  "map trace_name ex_bars = [''Week 1'', ''Week 2'', ''Week 3'', ''Week 4'', ''Week 5'', ''Week 6'']
     \<and> map (\<lambda>b. map Some (trace_x b)) ex_bars
         = replicate 6 (drop 2 (map (\<lambda>r. map_of r ''Names'') (table_data ex_table)))
     \<and> map (\<lambda>b. map Some (trace_y b)) ex_bars
         = map (\<lambda>k. drop 2 (map (\<lambda>r. map_of r k) (table_data ex_table))) [''1'', ''2'', ''3'', ''4'', ''5'', ''6'']
     \<and> length (table_data ex_table) = length (drop 9 ex_sheet)
     \<and> map (\<lambda>r. map_of r ''Names'') (table_data ex_table)
         = map (\<lambda>row. Some (cell_at row (columns_to_keep_page1 ! 2))) (drop 9 ex_sheet)
     \<and> map (\<lambda>k. map (\<lambda>r. map_of r k) (table_data ex_table)) [''1'', ''2'', ''3'', ''4'', ''5'', ''6'']
         = map (\<lambda>j. map (\<lambda>row. Some (coerce (ex_lib ex_sheet) (cell_at row (columns_to_keep_page1 ! j))))
                  (drop 9 ex_sheet)) [4, 6, 8, 10, 12, 14]"
proof -
  have d: "b64decode (ex_lib ex_sheet) ''QUJD'' = Some ''ABC''" by (simp add: ex_lib_def)
  have g: "sheet_rows (ex_lib ex_sheet) ''ABC'' = Some ex_sheet" by (simp add: ex_lib_def)
  from weekly_series[OF ex_output ex_split d g] show ?thesis .
qed

subsection \<open>C6: the number of records and their columns\<close>

text \<open>
  Claim C6, as amended. The number of records of the table is the number of sheet rows
  left after the first eight rows and the header row that follows them, which
  \<^verbatim>\<open>read_excel\<close> takes as the column labels: one less than the rows left after the
  eight skipped ones. Every record has the fifteen fixed column names in the fixed
  order, followed by \<^verbatim>\<open>Highest_Star\<close> and \<^verbatim>\<open>Percentage\<close>, and the table declares
  the same seventeen columns.
\<close>

theorem record_count:
  assumes "update_output L (Some c) t = Inr (DataTable tb, bars, pchart)"
    and "split_comma c = [p, s]" "b64decode L s = Some decoded" "sheet_rows L decoded = Some g"
  shows "length (drop 8 g) = Suc (length (table_data tb))
     \<and> length (table_data tb) = length g - 9
     \<and> page_size tb = length (table_data tb)
     \<and> (\<forall>r\<in>set (table_data tb).
           take 15 (map fst r)
             = [''Index'', ''Roll no'', ''Names'', ''WEEK1'', ''1'', ''WEEK2'', ''2'', ''WEEK3'', ''3'',
                ''WEEK4'', ''4'', ''WEEK5'', ''5'', ''WEEK6'', ''6'']
           \<and> drop 15 (map fst r) = [''Highest_Star'', ''Percentage''])
     \<and> map fst (table_columns tb)
           = [''Index'', ''Roll no'', ''Names'', ''WEEK1'', ''1'', ''WEEK2'', ''2'', ''WEEK3'', ''3'',
              ''WEEK4'', ''4'', ''WEEK5'', ''5'', ''WEEK6'', ''6'', ''Highest_Star'', ''Percentage'']"
proof -
  from update_output_sheet[OF assms] have
    rep: "(DataTable tb, bars, pchart) = sheet_report L t g" and g8: "8 < length g" by simp_all
  from rep have td: "table_data tb = map (row_record L t) (drop 9 g)"
    and ps: "page_size tb = length (drop 9 g)"
    and tc: "table_columns tb = map (\<lambda>col. (col, col)) (column_names @ [''Highest_Star'', ''Percentage''])"
    by (simp_all add: sheet_report_def Let_def)
  have keys: "map fst (row_record L t row)
      = [''Index'', ''Roll no'', ''Names'', ''WEEK1'', ''1'', ''WEEK2'', ''2'', ''WEEK3'', ''3'',
              ''WEEK4'', ''4'', ''WEEK5'', ''5'', ''WEEK6'', ''6'', ''Highest_Star'', ''Percentage'']" for row
    by (simp add: row_record_def Let_def)
  have "\<forall>r\<in>set (table_data tb).
           take 15 (map fst r)
             = [''Index'', ''Roll no'', ''Names'', ''WEEK1'', ''1'', ''WEEK2'', ''2'', ''WEEK3'', ''3'',
                ''WEEK4'', ''4'', ''WEEK5'', ''5'', ''WEEK6'', ''6'']
           \<and> drop 15 (map fst r) = [''Highest_Star'', ''Percentage'']"
    unfolding td by (auto simp: keys)
  moreover have "length (drop 8 g) = Suc (length (table_data tb))" "length (table_data tb) = length g - 9"
    using g8 by (simp_all add: td)
  moreover have "page_size tb = length (table_data tb)" by (simp add: ps td)
  moreover have "map fst (table_columns tb)
           = [''Index'', ''Roll no'', ''Names'', ''WEEK1'', ''1'', ''WEEK2'', ''2'', ''WEEK3'', ''3'',
              ''WEEK4'', ''4'', ''WEEK5'', ''5'', ''WEEK6'', ''6'', ''Highest_Star'', ''Percentage'']"
    by (simp add: tc column_names_def)
  ultimately show ?thesis by blast
qed

text \<open>The example: a sheet of 14 rows gives 5 records.\<close>

theorem record_count_witness:
  "length (drop 8 ex_sheet) = Suc (length (table_data ex_table))
     \<and> length (table_data ex_table) = length ex_sheet - 9
     \<and> page_size ex_table = length (table_data ex_table)
     \<and> take 15 (map fst (ex_records ! 0))
             = [''Index'', ''Roll no'', ''Names'', ''WEEK1'', ''1'', ''WEEK2'', ''2'', ''WEEK3'', ''3'',
                ''WEEK4'', ''4'', ''WEEK5'', ''5'', ''WEEK6'', ''6'']
     \<and> drop 15 (map fst (ex_records ! 0)) = [''Highest_Star'', ''Percentage'']"
proof -
  have d: "b64decode (ex_lib ex_sheet) ''QUJD'' = Some ''ABC''" by (simp add: ex_lib_def)
  have g: "sheet_rows (ex_lib ex_sheet) ''ABC'' = Some ex_sheet" by (simp add: ex_lib_def)
  have m: "ex_records ! 0 \<in> set (table_data ex_table)"
    by (simp add: ex_table_def ex_records_def)
  from record_count[OF ex_output ex_split d g] m show ?thesis by blast
qed

text \<open>
  The claim as stated, that the number of records equals the number of sheet rows left
  after the first eight rows, fails on the example: six rows are left and the table has
  five records.
\<close>

theorem record_count_counterexample:
  "update_output (ex_lib ex_sheet) (Some ex_contents) columns_to_keep_page1
     = Inr (DataTable ex_table, BarGraph ex_bars, PieChart ex_pie)
   \<and> split_comma ex_contents = [''data:application/vnd.ms-excel;base64'', ''QUJD'']
   \<and> b64decode (ex_lib ex_sheet) ''QUJD'' = Some ''ABC''
   \<and> sheet_rows (ex_lib ex_sheet) ''ABC'' = Some ex_sheet
   \<and> length (drop 8 ex_sheet) = 6
   \<and> length (table_data ex_table) = 5"
  using ex_output ex_split
  by (simp add: ex_lib_def ex_sheet_def ex_table_def ex_records_def)

subsection \<open>C7: a week cell that is not a number\<close>

text \<open>
  Claim C7. When the upload decodes, parses and has the columns of the template, the
  build succeeds whatever the cells hold. A week cell holding a string that does not
  parse as a number is \<open>NaN\<close> in its record, and the \<^verbatim>\<open>Highest_Star\<close> of that
  record is the maximum over the other five week fields: the greatest of the numbers
  they hold, and \<open>NaN\<close> when none of them holds a number.
\<close>

theorem non_numeric_cell:
  assumes "split_comma c = [p, s]" "b64decode L s = Some decoded" "sheet_rows L decoded = Some g"
    and "8 < length g" "length t = 15" "\<forall>k\<in>set t. k < grid_width g"
    and "i < length g - 9" "j < 6"
    and "cell_at (g ! (9 + i)) (t ! (4 + 2 * j)) = Str txt" "float_of_str L txt = None"
  shows "\<exists>tb bars pc. update_output L (Some c) t = Inr (DataTable tb, BarGraph bars, PieChart pc)
           \<and> length (table_data tb) = length g - 9
           \<and> map_of (table_data tb ! i) (numeric_columns ! j) = Some NaN
           \<and> (\<exists>ws. map (map_of (table_data tb ! i)) (remove1 (numeric_columns ! j) numeric_columns)
                       = map Some ws
                  \<and> length ws = 5
                  \<and> map_of (table_data tb ! i) ''Highest_Star''
                      = Some (if {v. Num v \<in> set ws} = {} then NaN
                              else Num (Max {v. Num v \<in> set ws})))"
proof -
  define row where "row = g ! (9 + i)"
  have out: "update_output L (Some c) t = Inr (sheet_report L t g)"
    by (rule update_output_success[OF assms(1-6)])
  have ri: "drop 9 g ! i = row" using assms(4,7) by (simp add: row_def)
  have nan: "coerce L (cell_at row (t ! (4 + 2 * j))) = NaN"
    using assms(9,10) by (simp add: row_def coerce_def)
  define r where "r = row_record L t row"
  define W where "W = week_values L t row"
  define rest where "rest = take j W @ drop (Suc j) W"
  have lenW: "length W = 6" by (simp add: W_def week_values_def)
  have lenO: "length rest = 5" using assms(8) lenW by (simp add: rest_def)
  have Wj: "W ! j = NaN"
    using less6[OF assms(8)] nan by (auto simp: W_def week_values_def)
  have field: "map_of r (numeric_columns ! j) = Some (W ! j)"
    using less6[OF assms(8)]
    by (auto simp: r_def W_def row_record_def Let_def numeric_columns_def week_values_def)
  have others: "map (map_of r) (remove1 (numeric_columns ! j) numeric_columns) = map Some rest"
    using less6[OF assms(8)]
    by (auto simp: rest_def r_def W_def row_record_def Let_def numeric_columns_def week_values_def)
  have "W = take j W @ W ! j # drop (Suc j) W"
    using assms(8) lenW by (simp add: id_take_nth_drop)
  then have "np_max W = np_max (take j W @ NaN # drop (Suc j) W)" using Wj by simp
  then have mx: "np_max W = np_max rest" by (simp only: np_max_skip rest_def)
  have "map_of r ''Highest_Star'' = Some (np_max W)" by (simp add: r_def W_def record_fields)
  then have "map_of r ''Highest_Star'' = Some (np_max rest)" by (simp only: mx)
  then have hs: "map_of r ''Highest_Star''
      = Some (if {v. Num v \<in> set rest} = {} then NaN else Num (Max {v. Num v \<in> set rest}))"
    by (simp only: np_max_Max[of rest])
  from others lenO hs
  have "\<exists>ws. map (map_of r) (remove1 (numeric_columns ! j) numeric_columns) = map Some ws
                  \<and> length ws = 5
                  \<and> map_of r ''Highest_Star''
                      = Some (if {v. Num v \<in> set ws} = {} then NaN
                              else Num (Max {v. Num v \<in> set ws}))"
    by blast
  with field Wj have fields: "map_of r (numeric_columns ! j) = Some NaN
      \<and> (\<exists>ws. map (map_of r) (remove1 (numeric_columns ! j) numeric_columns) = map Some ws
                  \<and> length ws = 5
                  \<and> map_of r ''Highest_Star''
                      = Some (if {v. Num v \<in> set ws} = {} then NaN
                              else Num (Max {v. Num v \<in> set ws})))"
    by simp
  define tb where "tb = \<lparr>table_columns = map (\<lambda>col. (col, col)) (column_names @ [''Highest_Star'', ''Percentage'']),
             table_data = map (row_record L t) (drop 9 g),
             page_size = length (drop 9 g)\<rparr>"
  have "\<exists>bars pc. sheet_report L t g = (DataTable tb, BarGraph bars, PieChart pc)"
    by (simp add: sheet_report_def Let_def tb_def)
  then obtain bars pc where rep: "sheet_report L t g = (DataTable tb, BarGraph bars, PieChart pc)"
    by blast
  have len: "length (table_data tb) = length g - 9" by (simp add: tb_def)
  have ti: "table_data tb ! i = r" using assms(7) ri by (simp add: tb_def r_def)
  have o2: "update_output L (Some c) t = Inr (DataTable tb, BarGraph bars, PieChart pc)"
    using out rep by simp
  from fields have f2: "map_of (table_data tb ! i) (numeric_columns ! j) = Some NaN
      \<and> (\<exists>ws. map (map_of (table_data tb ! i)) (remove1 (numeric_columns ! j) numeric_columns)
                    = map Some ws
                  \<and> length ws = 5
                  \<and> map_of (table_data tb ! i) ''Highest_Star''
                      = Some (if {v. Num v \<in> set ws} = {} then NaN
                              else Num (Max {v. Num v \<in> set ws})))"
    by (simp only: ti)
  from o2 len f2 show ?thesis by (intro exI[of _ tb] exI[of _ bars] exI[of _ pc] conjI) simp_all
qed

text \<open>
  The example: the week 3 cell of the first data row holds \<^verbatim>\<open>abc\<close>; the other five
  week fields of its record hold 7, nothing, 2, 3 and 1, and its \<^verbatim>\<open>Highest_Star\<close> is 7.
\<close>

theorem non_numeric_cell_witness:
  "update_output (ex_lib ex_sheet) (Some ex_contents) columns_to_keep_page1
     = Inr (DataTable ex_table, BarGraph ex_bars, PieChart ex_pie)
   \<and> cell_at (ex_sheet ! 9) (columns_to_keep_page1 ! 8) = Str ''abc''
   \<and> length (table_data ex_table) = length ex_sheet - 9
   \<and> map_of (table_data ex_table ! 0) (numeric_columns ! 2) = Some NaN
   \<and> map (map_of (table_data ex_table ! 0)) (remove1 (numeric_columns ! 2) numeric_columns)
       = map Some [Num 7, NaN, Num 2, Num 3, Num 1]
   \<and> map_of (table_data ex_table ! 0) ''Highest_Star''
       = Some (Num (Max {v. Num v \<in> set [Num 7, NaN, Num 2, Num 3, Num 1]}))
   \<and> map_of (table_data ex_table ! 0) ''Highest_Star'' = Some (Num 7)"
proof -
  have d: "b64decode (ex_lib ex_sheet) ''QUJD'' = Some ''ABC''" by (simp add: ex_lib_def)
  have g: "sheet_rows (ex_lib ex_sheet) ''ABC'' = Some ex_sheet" by (simp add: ex_lib_def)
  have l: "8 < length ex_sheet" by (simp add: ex_sheet_def)
  have t: "length columns_to_keep_page1 = 15" by (simp add: columns_to_keep_page1_def)
  have w: "\<forall>k\<in>set columns_to_keep_page1. k < grid_width ex_sheet" by code_simp
  have i: "0 < length ex_sheet - 9" by (simp add: ex_sheet_def)
  have j: "(2::nat) < 6" by simp
  have x: "cell_at (ex_sheet ! (9 + 0)) (columns_to_keep_page1 ! (4 + 2 * 2)) = Str ''abc''"
    by code_simp
  have x': "cell_at (ex_sheet ! 9) (columns_to_keep_page1 ! 8) = Str ''abc''"
    using x by simp
  have f: "float_of_str (ex_lib ex_sheet) ''abc'' = None" by (simp add: ex_lib_def)
  from non_numeric_cell[OF ex_split d g l t w i j x f] obtain tb bars pc ws where
    h: "update_output (ex_lib ex_sheet) (Some ex_contents) columns_to_keep_page1
          = Inr (DataTable tb, BarGraph bars, PieChart pc)"
      "length (table_data tb) = length ex_sheet - 9"
      "map_of (table_data tb ! 0) (numeric_columns ! 2) = Some NaN"
      "map (map_of (table_data tb ! 0)) (remove1 (numeric_columns ! 2) numeric_columns) = map Some ws"
      "map_of (table_data tb ! 0) ''Highest_Star''
         = Some (if {v. Num v \<in> set ws} = {} then NaN else Num (Max {v. Num v \<in> set ws}))"
    by blast
  from h(1) ex_output have tb: "tb = ex_table" by simp
  have oth: "map (map_of (table_data ex_table ! 0)) (remove1 (numeric_columns ! 2) numeric_columns)
               = map Some [Num 7, NaN, Num 2, Num 3, Num 1]"
    by (simp add: ex_table_def ex_records_def ex_record_def numeric_columns_def)
  from h(4) oth have "map Some ws = map Some [Num 7, NaN, Num 2, Num 3, Num 1]"
    by (simp only: tb)
  then have ws: "ws = [Num 7, NaN, Num 2, Num 3, Num 1]"
    by (simp only: inj_map_eq_map[OF inj_Some])
  have ne: "{v. Num v \<in> set [Num 7, NaN, Num 2, Num 3, Num 1]} \<noteq> {}" by auto
  from h(5) have mx: "map_of (table_data ex_table ! 0) ''Highest_Star''
       = Some (Num (Max {v. Num v \<in> set [Num 7, NaN, Num 2, Num 3, Num 1]}))"
    using ne by (simp only: tb ws if_False)
  have seven: "map_of (table_data ex_table ! 0) ''Highest_Star'' = Some (Num 7)"
    by (simp add: ex_table_def ex_records_def ex_record_def)
  from h(2,3) have a: "length (table_data ex_table) = length ex_sheet - 9"
    "map_of (table_data ex_table ! 0) (numeric_columns ! 2) = Some NaN"
    by (simp_all only: tb)
  from ex_output x' a oth mx seven show ?thesis by (simp only:)
qed

subsection \<open>C8: the errors of a build\<close>

text \<open>
  Claim C8, as amended. The build fails with \<open>DecodeError\<close> exactly when the contents
  have one comma and the payload after it does not decode; with \<open>ParseError\<close> exactly
  when the payload decodes and the bytes are not a readable workbook; with
  \<open>SchemaError\<close> exactly when the workbook is read and some position of the template is
  not below the number of columns of the frame, which is the width of the sheet, or zero
  for a sheet of at most eight rows. Contents without exactly one comma fail in the
  unpacking, and a template of in-range positions that are not fifteen fails in the
  renaming. A build either fails with an error and no output, or returns all three
  outputs.
\<close>

theorem error_kinds:
  "(update_output L (Some c) t = Inl DecodeError
      \<longleftrightarrow> (\<exists>p s. split_comma c = [p, s] \<and> b64decode L s = None))
   \<and> (update_output L (Some c) t = Inl ParseError
      \<longleftrightarrow> (\<exists>p s d. split_comma c = [p, s] \<and> b64decode L s = Some d \<and> sheet_rows L d = None))
   \<and> (update_output L (Some c) t = Inl SchemaError
      \<longleftrightarrow> (\<exists>p s d g. split_comma c = [p, s] \<and> b64decode L s = Some d \<and> sheet_rows L d = Some g
             \<and> (\<exists>k\<in>set t. (if length g \<le> 8 then 0 else grid_width g) \<le> k)))
   \<and> (update_output L (Some c) t = Inl UnpackError \<longleftrightarrow> length (split_comma c) \<noteq> 2)
   \<and> (update_output L (Some c) t = Inl LengthMismatch
      \<longleftrightarrow> (\<exists>p s d g. split_comma c = [p, s] \<and> b64decode L s = Some d \<and> sheet_rows L d = Some g
             \<and> (\<forall>k\<in>set t. k < (if length g \<le> 8 then 0 else grid_width g)) \<and> length t \<noteq> 15))
   \<and> ((\<exists>e. update_output L (Some c) t = Inl e)
        \<noteq> (\<exists>tb bars pc. update_output L (Some c) t = Inr (DataTable tb, BarGraph bars, PieChart pc)))"
proof -
  let ?res = "update_output L (Some c) t"
  have rep: "\<exists>tb bars pc. sheet_report L t g = (DataTable tb, BarGraph bars, PieChart pc)" for g
    by (simp add: sheet_report_def Let_def)
  have two: "length xs \<noteq> 2 \<longleftrightarrow> \<not> (\<exists>p s. xs = [p, s])" for xs :: "string list"
    by (auto simp: numeral_eq_Suc length_Suc_conv)
  have nc: "(if length g \<le> 8 then 0 else grid_width g) = frame_ncols g" for g
    by (simp add: frame_ncols_def)
  have bd: "(\<forall>k\<in>set t. k < n) \<longleftrightarrow> \<not> (\<exists>k\<in>set t. n \<le> k)" for n :: nat
    by (auto simp: not_le)
  show ?thesis
  proof (cases "\<exists>p s. split_comma c = [p, s]")
    case False
    then have "?res = Inl UnpackError"
      by (auto simp: update_output_eq split: list.splits)
    with False show ?thesis by (simp add: two)
  next
    case True
    then obtain p s where ps: "split_comma c = [p, s]" by blast
    show ?thesis
    proof (cases "b64decode L s")
      case None
      with ps have "?res = Inl DecodeError" by (simp add: update_output_eq)
      with ps None show ?thesis by (simp add: two)
    next
      case (Some d)
      note dec = this
      show ?thesis
      proof (cases "sheet_rows L d")
        case None
        with ps dec have "?res = Inl ParseError" by (simp add: update_output_eq)
        with ps dec None show ?thesis by (simp add: two)
      next
        case (Some g)
        note g = this
        show ?thesis
        proof (cases "\<exists>k\<in>set t. frame_ncols g \<le> k")
          case True
          with ps dec g have "?res = Inl SchemaError" by (simp add: update_output_eq)
          with ps dec g True show ?thesis by (simp add: two nc bd)
        next
          case False
          note inb = this
          show ?thesis
          proof (cases "length t = 15")
            case False
            with ps dec g inb have "?res = Inl LengthMismatch" by (simp add: update_output_eq)
            with ps dec g inb False show ?thesis by (simp add: two nc bd)
          next
            case True
            with ps dec g inb have r: "?res = Inr (sheet_report L t g)" by (simp add: update_output_eq)
            from rep[of g] obtain tb bars pc where
              "sheet_report L t g = (DataTable tb, BarGraph bars, PieChart pc)" by blast
            with r have "?res = Inr (DataTable tb, BarGraph bars, PieChart pc)" by simp
            with ps dec g inb True show ?thesis by (simp add: two nc bd)
          qed
        qed
      qed
    qed
  qed
qed

text \<open>The sheet of 63 columns fails in the selection, the payload \<^verbatim>\<open>QUJE\<close> in the decoding.\<close>

theorem error_kinds_witness:
  "update_output (ex_lib ex_narrow_sheet) (Some ex_contents) columns_to_keep_page1 = Inl SchemaError
   \<and> update_output (ex_lib ex_sheet) (Some ''data:application/vnd.ms-excel;base64,QUJE'')
        columns_to_keep_page1 = Inl DecodeError"
proof -
  have d: "b64decode (ex_lib ex_narrow_sheet) ''QUJD'' = Some ''ABC''" by (simp add: ex_lib_def)
  have g: "sheet_rows (ex_lib ex_narrow_sheet) ''ABC'' = Some ex_narrow_sheet" by (simp add: ex_lib_def)
  have k: "\<exists>k\<in>set columns_to_keep_page1.
             (if length ex_narrow_sheet \<le> 8 then 0 else grid_width ex_narrow_sheet) \<le> k"
    by code_simp
  have s2: "split_comma ''data:application/vnd.ms-excel;base64,QUJE''
              = [''data:application/vnd.ms-excel;base64'', ''QUJE'']" by code_simp
  have d2: "b64decode (ex_lib ex_sheet) ''QUJE'' = None" by (simp add: ex_lib_def)
  from error_kinds[of "ex_lib ex_narrow_sheet" ex_contents columns_to_keep_page1] ex_split d g k
  have a: "update_output (ex_lib ex_narrow_sheet) (Some ex_contents) columns_to_keep_page1 = Inl SchemaError"
    by blast
  from error_kinds[of "ex_lib ex_sheet" "''data:application/vnd.ms-excel;base64,QUJE''" columns_to_keep_page1]
    s2 d2
  have b: "update_output (ex_lib ex_sheet) (Some ''data:application/vnd.ms-excel;base64,QUJE'')
        columns_to_keep_page1 = Inl DecodeError"
    by blast
  from a b show ?thesis by simp
qed

text \<open>
  The claim as stated, that the build fails with \<open>SchemaError\<close> exactly when the sheet
  has fewer columns than the highest index of the template, fails on the sheet of 63
  columns: the highest index of the first template is 63, the sheet has not fewer than 63
  columns, and the build fails with \<open>SchemaError\<close>.
\<close>

theorem schema_error_counterexample:
  "update_output (ex_lib ex_narrow_sheet) (Some ex_contents) columns_to_keep_page1 = Inl SchemaError
   \<and> split_comma ex_contents = [''data:application/vnd.ms-excel;base64'', ''QUJD'']
   \<and> b64decode (ex_lib ex_narrow_sheet) ''QUJD'' = Some ''ABC''
   \<and> sheet_rows (ex_lib ex_narrow_sheet) ''ABC'' = Some ex_narrow_sheet
   \<and> grid_width ex_narrow_sheet = 63
   \<and> Max (set columns_to_keep_page1) = 63
   \<and> \<not> grid_width ex_narrow_sheet < Max (set columns_to_keep_page1)"
  by code_simp

subsection \<open>C9: only the payload is read\<close>

text \<open>
  Claim C9. \<open>update_output\<close> is a function of the library, the contents and the
  template, and reads no other state, so the same input gives the same output. Two
  contents with the same payload after the comma give the same output, whatever their
  comma-free prefixes are.
\<close>

theorem prefix_independence:
  assumes "CHR '','' \<notin> set p1" and "CHR '','' \<notin> set p2"
  shows "update_output L (Some (p1 @ CHR '','' # payload)) t
           = update_output L (Some (p2 @ CHR '','' # payload)) t"
proof -
  have "read_excel_contents L (p1 @ CHR '','' # payload) t
          = read_excel_contents L (p2 @ CHR '','' # payload) t"
    using split_comma_nonempty[of payload]
    by (cases "split_comma payload")
       (simp_all add: read_excel_contents_def split_comma_prefix[OF assms(1)]
          split_comma_prefix[OF assms(2)] split: list.splits)
  then show ?thesis by (simp add: update_output_def)
qed

text \<open>The example payload under two media types.\<close>

theorem prefix_independence_witness:
  "CHR '','' \<notin> set ''data:application/vnd.ms-excel;base64''
   \<and> CHR '','' \<notin> set ''data:text/plain;base64''
   \<and> update_output (ex_lib ex_sheet) (Some ''data:application/vnd.ms-excel;base64,QUJD'') columns_to_keep_page1
        = update_output (ex_lib ex_sheet) (Some ''data:text/plain;base64,QUJD'') columns_to_keep_page1"
proof -
  have a: "CHR '','' \<notin> set ''data:application/vnd.ms-excel;base64''" by simp
  have b: "CHR '','' \<notin> set ''data:text/plain;base64''" by simp
  from prefix_independence[OF a b, of "ex_lib ex_sheet" "''QUJD''" columns_to_keep_page1] a b
  show ?thesis by simp
qed

subsection \<open>C10: no upload\<close>

text \<open>
  Claim C10. When \<^verbatim>\<open>contents\<close> is \<^verbatim>\<open>None\<close>, \<open>update_output\<close> returns the
  placeholder triple, an empty \<^verbatim>\<open>Div\<close> and two empty figures, and raises nothing.
  Nothing is decoded or parsed: the result is the same for every library, also one whose
  decoder and reader always fail. \<open>update_tab_contents\<close> with no upload on either page
  returns the placeholder triple twice.
\<close>

theorem no_upload_placeholder:
  "update_output L None t = Inr (Div [''''], EmptyFigure, EmptyFigure)
   \<and> update_tab_contents L None None active_tab
       = Inr ((Div [''''], EmptyFigure, EmptyFigure), (Div [''''], EmptyFigure, EmptyFigure))"
  by (simp add: update_output_def update_tab_contents_def tab_output_def)

section \<open>Further properties\<close>

subsection \<open>X2: no active tab\<close>

text \<open>
  Extra X2. When no tab is active, \<open>update_tab_contents\<close> returns the placeholder
  triple for both pages, whatever was uploaded, and raises nothing.
\<close>

theorem inactive_tab_placeholders:
  "update_tab_contents L contents_page1 contents_page2 None
     = Inr ((Div [''''], EmptyFigure, EmptyFigure), (Div [''''], EmptyFigure, EmptyFigure))"
  by (simp add: update_tab_contents_def tab_output_def)

end
